theory Spec2Isabelle
  imports Complex_Main "HOL-Library.Char_ord" "HOL-Library.List_Lexorder"
    "HOL-Library.Product_Lexorder"
begin

section \<open>Numbers of the data frames\<close>

text \<open>
  The numeric columns of the dashboard hold float64 values. A finite value is
  modelled by the rational it denotes (no rounding, no overflow, one zero); the
  special values of the format are kept, because the code reaches them from finite
  inputs: a division by zero in \<^verbatim>\<open>pct_change\<close> gives an infinity or NaN, and
  NaN is how pandas writes an absent cell of a numeric column.
  The rounding of the format to 53 bits, its overflow and the sign of its zero are
  not part of the model.
\<close>

datatype fl = Fin rat | PInf | NInf | NaN

fun fl_neg :: "fl \<Rightarrow> fl" where
  "fl_neg (Fin a) = Fin (- a)"
| "fl_neg PInf = NInf"
| "fl_neg NInf = PInf"
| "fl_neg NaN = NaN"

fun fl_add :: "fl \<Rightarrow> fl \<Rightarrow> fl" where
  "fl_add NaN y = NaN"
| "fl_add x NaN = NaN"
| "fl_add (Fin a) (Fin b) = Fin (a + b)"
| "fl_add PInf NInf = NaN"
| "fl_add NInf PInf = NaN"
| "fl_add PInf y = PInf"
| "fl_add x PInf = PInf"
| "fl_add NInf y = NInf"
| "fl_add x NInf = NInf"

definition fl_sub :: "fl \<Rightarrow> fl \<Rightarrow> fl" where
  "fl_sub x y = fl_add x (fl_neg y)"

text \<open>Division as IEEE 754 defines it on the special values; the zero is the positive one.\<close>

fun fl_div :: "fl \<Rightarrow> fl \<Rightarrow> fl" where
  "fl_div NaN y = NaN"
| "fl_div x NaN = NaN"
| "fl_div (Fin a) (Fin b) =
     (if b \<noteq> 0 then Fin (a / b)
      else if 0 < a then PInf else if a < 0 then NInf else NaN)"
| "fl_div (Fin a) PInf = Fin 0"
| "fl_div (Fin a) NInf = Fin 0"
| "fl_div PInf (Fin b) = (if b < 0 then NInf else PInf)"
| "fl_div NInf (Fin b) = (if b < 0 then PInf else NInf)"
| "fl_div PInf y = NaN"
| "fl_div NInf y = NaN"

text \<open>\<open>fl_gt x y\<close> is the comparison \<^verbatim>\<open>x > y\<close>: false as soon as one side is NaN.\<close>

fun fl_gt :: "fl \<Rightarrow> fl \<Rightarrow> bool" where
  "fl_gt NaN y = False"
| "fl_gt x NaN = False"
| "fl_gt (Fin a) (Fin b) = (b < a)"
| "fl_gt PInf PInf = False"
| "fl_gt PInf y = True"
| "fl_gt NInf y = False"
| "fl_gt (Fin a) PInf = False"
| "fl_gt (Fin a) NInf = True"

definition fl_ge :: "fl \<Rightarrow> fl \<Rightarrow> bool" where
  "fl_ge x y = (x \<noteq> NaN \<and> y \<noteq> NaN \<and> \<not> fl_gt y x)"

definition fl_sum :: "fl list \<Rightarrow> fl" where
  "fl_sum xs = foldl fl_add (Fin 0) xs"

section \<open>Text\<close>

text \<open>
  Text is a list of bytes (UTF-8). The predicates of the code look at ASCII
  characters only, with one exception noted at \<open>str_contains_S\<close>.
\<close>

definition is_digit :: "char \<Rightarrow> bool" where
  "is_digit c = (c \<in> set ''0123456789'')"

definition digit_val :: "char \<Rightarrow> nat" where
  "digit_val c = of_char c - 48"

definition to_lower :: "char \<Rightarrow> char" where
  "to_lower c =
     (case map_of (zip ''ABCDEFGHIJKLMNOPQRSTUVWXYZ'' ''abcdefghijklmnopqrstuvwxyz'') c of
        Some d \<Rightarrow> d
      | None \<Rightarrow> c)"

definition py_lower :: "string \<Rightarrow> string" where
  "py_lower s = map to_lower s"

text \<open>\<^verbatim>\<open>str.strip()\<close>: the ASCII characters Python counts as whitespace.\<close>

definition is_space :: "char \<Rightarrow> bool" where
  "is_space c =
     (c \<in> set [CHR 0x09, CHR 0x0A, CHR 0x0B, CHR 0x0C, CHR 0x0D,
                CHR 0x1C, CHR 0x1D, CHR 0x1E, CHR 0x1F, CHR 0x20])"

definition py_strip :: "string \<Rightarrow> string" where
  "py_strip s = rev (dropWhile is_space (rev (dropWhile is_space s)))"

definition startswith :: "string \<Rightarrow> string \<Rightarrow> bool" where
  "startswith s p = (take (length p) s = p)"

text \<open>\<^verbatim>\<open>s.startswith((p1, ..., pn))\<close> with a tuple of prefixes.\<close>

definition startswith_any :: "string \<Rightarrow> string list \<Rightarrow> bool" where
  "startswith_any s ps = list_ex (startswith s) ps"

section \<open>Python's \<^verbatim>\<open>float\<close> on text\<close>

text \<open>
  \<^verbatim>\<open>float(x)\<close> for a string \<open>x\<close>: surrounding whitespace is dropped, an
  underscore may stand between two digits, then comes an optional sign and either a
  decimal literal (digits, optional point and fraction, optional exponent) or one of
  \<^verbatim>\<open>inf\<close>, \<^verbatim>\<open>infinity\<close>, \<^verbatim>\<open>nan\<close> in any case. \<open>None\<close> is the
  \<^verbatim>\<open>ValueError\<close>. The model reads ASCII text; the decimal digits and spaces
  of other scripts, which Python also accepts, are not covered.
\<close>

definition is_float_space :: "char \<Rightarrow> bool" where
  "is_float_space c =
     (c \<in> set [CHR 0x09, CHR 0x0A, CHR 0x0B, CHR 0x0C, CHR 0x0D, CHR 0x20])"

definition float_strip :: "string \<Rightarrow> string" where
  "float_strip s = rev (dropWhile is_float_space (rev (dropWhile is_float_space s)))"

fun underscores_ok :: "char \<Rightarrow> string \<Rightarrow> bool" where
  "underscores_ok prev [] = (prev \<noteq> CHR ''_'')"
| "underscores_ok prev (c # cs) =
     (if c = CHR ''_'' then is_digit prev \<and> underscores_ok c cs
      else if prev = CHR ''_'' then is_digit c \<and> underscores_ok c cs
      else underscores_ok c cs)"

definition digits_val :: "string \<Rightarrow> nat" where
  "digits_val ds = foldl (\<lambda>n c. 10 * n + digit_val c) 0 ds"

definition scale10 :: "rat \<Rightarrow> int \<Rightarrow> rat" where
  "scale10 q e = (if 0 \<le> e then q * 10 ^ nat e else q / 10 ^ nat (- e))"

definition decimal_value :: "string \<Rightarrow> string \<Rightarrow> int \<Rightarrow> fl" where
  "decimal_value ip fp e =
     Fin (scale10 (of_nat (digits_val (ip @ fp))) (e - int (length fp)))"

definition parse_exponent :: "string \<Rightarrow> int option" where
  "parse_exponent s =
     (let neg = (case s of [] \<Rightarrow> False | c # _ \<Rightarrow> c = CHR ''-'');
          sgn = (case s of [] \<Rightarrow> False | c # _ \<Rightarrow> c = CHR ''-'' \<or> c = CHR ''+'');
          ds = (if sgn then tl s else s)
      in if ds \<noteq> [] \<and> list_all is_digit ds
         then Some (if neg then - int (digits_val ds) else int (digits_val ds))
         else None)"

definition parse_decimal :: "string \<Rightarrow> fl option" where
  "parse_decimal s =
     (let ip = takeWhile is_digit s;
          r1 = dropWhile is_digit s;
          dot = (case r1 of [] \<Rightarrow> False | c # _ \<Rightarrow> c = CHR ''.'');
          fp = (if dot then takeWhile is_digit (tl r1) else []);
          r2 = (if dot then dropWhile is_digit (tl r1) else r1)
      in if ip = [] \<and> fp = [] then None
         else (case r2 of
                 [] \<Rightarrow> Some (decimal_value ip fp 0)
               | c # t \<Rightarrow>
                   if c = CHR ''e'' \<or> c = CHR ''E''
                   then map_option (decimal_value ip fp) (parse_exponent t)
                   else None))"

definition parse_inf_or_nan :: "string \<Rightarrow> fl option" where
  "parse_inf_or_nan s =
     (let l = py_lower s
      in if l = ''inf'' \<or> l = ''infinity'' then Some PInf
         else if l = ''nan'' then Some NaN
         else None)"

definition parse_unsigned :: "string \<Rightarrow> fl option" where
  "parse_unsigned s =
     (case parse_decimal s of Some v \<Rightarrow> Some v | None \<Rightarrow> parse_inf_or_nan s)"

definition py_float :: "string \<Rightarrow> fl option" where
  "py_float x =
     (let t = float_strip x
      in if \<not> underscores_ok (CHR 0x00) t then None
         else (case filter (\<lambda>c. c \<noteq> CHR ''_'') t of
                 [] \<Rightarrow> None
               | c # r \<Rightarrow>
                   if c = CHR ''-'' then map_option fl_neg (parse_unsigned r)
                   else if c = CHR ''+'' then parse_unsigned r
                   else parse_unsigned (c # r)))"

section \<open>The data frame and the install-count cleaner\<close>

text \<open>
  One row of \<^verbatim>\<open>df_apps\<close>. \<open>App\<close> and \<open>Category\<close> are text in every row: the
  masks of lines 38, 94 and 96 are not defined on a missing cell, which is
  therefore not a value of these two columns. The three other columns change their
  type along a pipeline, so their types are parameters. In the frame as loaded they
  are columns of text cells, \<open>None\<close> being a missing cell.
\<close>

record ('i, 'r, 'd) app_record =
  App :: string
  Category :: string
  Installs :: 'i
  Reviews :: 'r
  Last_Updated :: 'd

type_synonym raw_record = "(string option, string option, string option) app_record"

definition set_Installs :: "'j \<Rightarrow> ('i, 'r, 'd) app_record \<Rightarrow> ('j, 'r, 'd) app_record" where
  "set_Installs v r =
     \<lparr>App = App r, Category = Category r, Installs = v, Reviews = Reviews r,
      Last_Updated = Last_Updated r\<rparr>"

text \<open>\<^verbatim>\<open>df['Installs'].str.contains('[0-9]', na=False)\<close>\<close>

definition str_contains_digit :: "string option \<Rightarrow> bool" where
  "str_contains_digit cell = (case cell of None \<Rightarrow> False | Some s \<Rightarrow> list_ex is_digit s)"

text \<open>\<^verbatim>\<open>df['Installs'].str.replace('[+,]', '', regex=True)\<close>\<close>

definition str_replace_plus_comma :: "string \<Rightarrow> string" where
  "str_replace_plus_comma s = filter (\<lambda>c. c \<noteq> CHR ''+'' \<and> c \<noteq> CHR '','') s"

definition clean_installs :: "string \<Rightarrow> fl option" where
  "clean_installs x =
     (if py_lower (py_strip x) = ''free'' then None else py_float x)"

text \<open>\<^verbatim>\<open>df.dropna(subset=['Installs'])\<close>: \<^verbatim>\<open>None\<close> and NaN are both absent.\<close>

definition notna :: "fl option \<Rightarrow> fl option" where
  "notna cell = (case cell of None \<Rightarrow> None | Some v \<Rightarrow> if v = NaN then None else Some v)"

definition dropna_Installs ::
  "(fl option, 'r, 'd) app_record list \<Rightarrow> (fl, 'r, 'd) app_record list" where
  "dropna_Installs df =
     List.map_filter (\<lambda>r. map_option (\<lambda>v. set_Installs v r) (notna (Installs r))) df"

text \<open>
  Lines 23 to 35 of \<^verbatim>\<open>prepare_choropleth_data\<close>, which lines 76 to 88 of
  \<^verbatim>\<open>prepare_time_series_data\<close> repeat word for word. The nested function
  is the argument \<open>clean\<close>.
\<close>

definition installs_head_with ::
  "(string \<Rightarrow> fl option) \<Rightarrow> (string option, 'r, 'd) app_record list \<Rightarrow>
   (fl, 'r, 'd) app_record list" where
  "installs_head_with clean df_apps =
     (let df1 = filter (\<lambda>r. str_contains_digit (Installs r)) df_apps;
          df2 = map (\<lambda>r. set_Installs (map_option str_replace_plus_comma (Installs r)) r) df1;
          df3 = map (\<lambda>r. set_Installs (Option.bind (Installs r) clean) r) df2
      in dropna_Installs df3)"

definition installs_head ::
  "(string option, 'r, 'd) app_record list \<Rightarrow> (fl, 'r, 'd) app_record list" where
  "installs_head df_apps = installs_head_with clean_installs df_apps"

text \<open>What the head of a pipeline makes of one cell of the \<open>Installs\<close> column.\<close>

definition install_cleaner :: "string option \<Rightarrow> fl option" where
  "install_cleaner cell =
     (if str_contains_digit cell
      then notna (Option.bind (map_option str_replace_plus_comma cell) clean_installs)
      else None)"

text \<open>
  The nested function without its first branch, and the head of the pipelines built
  on it.
\<close>

definition clean_installs_no_free :: "string \<Rightarrow> fl option" where
  "clean_installs_no_free x = py_float x"

definition installs_head_no_free ::
  "(string option, 'r, 'd) app_record list \<Rightarrow> (fl, 'r, 'd) app_record list" where
  "installs_head_no_free df_apps = installs_head_with clean_installs_no_free df_apps"

section \<open>Grouping and sorting\<close>

text \<open>
  \<^verbatim>\<open>df.groupby(key)[val].sum()\<close>: one entry for each key that occurs, the keys
  in ascending order, the values of a group added in row order.
\<close>

definition groupby_sum ::
  "('a \<Rightarrow> 'k::linorder) \<Rightarrow> ('a \<Rightarrow> fl) \<Rightarrow> 'a list \<Rightarrow> ('k \<times> fl) list" where
  "groupby_sum key val df =
     map (\<lambda>k. (k, fl_sum (map val (filter (\<lambda>r. key r = k) df))))
       (sort (remdups (map key df)))"

text \<open>
  \<^verbatim>\<open>sort_values(ascending=False)\<close> on a series without NaN. Entries with equal
  values keep their order here; the sort of the library fixes no order for them.
\<close>

fun insert_desc :: "('k \<times> fl) \<Rightarrow> ('k \<times> fl) list \<Rightarrow> ('k \<times> fl) list" where
  "insert_desc x [] = [x]"
| "insert_desc x (y # ys) =
     (if fl_gt (snd y) (snd x) then y # insert_desc x ys else x # y # ys)"

definition sort_values_desc :: "('k \<times> fl) list \<Rightarrow> ('k \<times> fl) list" where
  "sort_values_desc xs = foldr insert_desc xs []"

section \<open>The choropleth pipeline\<close>

text \<open>
  The reference table of \<^verbatim>\<open>pycountry.countries\<close> is an argument of the
  pipeline: the list of its entries in the order of the data file. Every entry has
  a name, a two-letter and a three-letter code, a flag and a numeric code; the
  official and the common name are optional. The table of the library is not empty.
\<close>

record country =
  alpha_2 :: string
  alpha_3 :: string
  flag :: string
  name :: string
  numeric :: string
  official_name :: "string option"
  common_name :: "string option"

text \<open>
  One index of the table: the dictionary from the lower-case value of a field to
  the entry, a later entry replacing an earlier one with the same value.
\<close>

definition index_get ::
  "(country \<Rightarrow> string option) \<Rightarrow> country list \<Rightarrow> string \<Rightarrow> country option" where
  "index_get field tbl v =
     (case filter (\<lambda>c. map_option py_lower (field c) = Some v) tbl of
        [] \<Rightarrow> None
      | c # cs \<Rightarrow> Some (last (c # cs)))"

fun first_some :: "'a option list \<Rightarrow> 'a option" where
  "first_some [] = None"
| "first_some (None # xs) = first_some xs"
| "first_some (Some x # xs) = Some x"

text \<open>
  \<^verbatim>\<open>pycountry.countries.lookup(value)\<close>: the value in lower case is looked up
  in one index after the other; \<open>None\<close> is the \<^verbatim>\<open>LookupError\<close>.
\<close>

definition countries_lookup :: "country list \<Rightarrow> string \<Rightarrow> country option" where
  "countries_lookup tbl val =
     (let v = py_lower val
      in first_some
           [index_get (\<lambda>c. Some (alpha_2 c)) tbl v,
            index_get (\<lambda>c. Some (alpha_3 c)) tbl v,
            index_get (\<lambda>c. Some (flag c)) tbl v,
            index_get (\<lambda>c. Some (name c)) tbl v,
            index_get (\<lambda>c. Some (numeric c)) tbl v,
            index_get official_name tbl v,
            index_get common_name tbl v])"

definition get_iso3 :: "country list \<Rightarrow> string \<Rightarrow> string option" where
  "get_iso3 tbl country_name =
     (case countries_lookup tbl country_name of
        Some c \<Rightarrow> Some (alpha_3 c)
      | None \<Rightarrow> None)"

record ('i, 'r, 'd) geo_record = "('i, 'r, 'd) app_record" +
  Country :: string
  iso_alpha :: "string option"

definition with_Country ::
  "string \<Rightarrow> string option \<Rightarrow> ('i, 'r, 'd) app_record \<Rightarrow> ('i, 'r, 'd) geo_record" where
  "with_Country c a r =
     \<lparr>App = App r, Category = Category r, Installs = Installs r, Reviews = Reviews r,
      Last_Updated = Last_Updated r, Country = c, iso_alpha = a\<rparr>"

text \<open>
  The stages after the head take its result, the frame \<open>df\<close> of line 35, as their
  argument. Line 38: the frame without the unwanted categories.
\<close>

definition geo_wanted :: "(fl, 'r, 'd) app_record list \<Rightarrow> (fl, 'r, 'd) app_record list" where
  "geo_wanted df =
     filter (\<lambda>r. \<not> startswith_any (Category r) [''A'', ''C'', ''G'', ''S'']) df"

text \<open>Line 40: \<^verbatim>\<open>top_categories\<close>, the install total of every category.\<close>

definition top_categories :: "(fl, 'r, 'd) app_record list \<Rightarrow> (string \<times> fl) list" where
  "top_categories df = groupby_sum Category Installs (geo_wanted df)"

text \<open>Line 41.\<close>

definition top5 :: "(fl, 'r, 'd) app_record list \<Rightarrow> string list" where
  "top5 df =
     map fst (take 5 (sort_values_desc
       (filter (\<lambda>kv. fl_gt (snd kv) (Fin 1000000)) (top_categories df))))"

text \<open>Line 43: the records of the top categories.\<close>

definition geo_top :: "(fl, 'r, 'd) app_record list \<Rightarrow> (fl, 'r, 'd) app_record list" where
  "geo_top df = filter (\<lambda>r. Category r \<in> set (top5 df)) (geo_wanted df)"

text \<open>
  Lines 45 to 57. \<open>random_choices\<close> stands for \<^verbatim>\<open>random.choices\<close> in the state
  the generator is in: from a population and a number \<open>k\<close> it returns \<open>k\<close> members
  of the population. The two new columns are written in one step; a list of another
  length than the frame, which pandas refuses, cannot come from the library.
\<close>

definition choropleth_tail ::
  "country list \<Rightarrow> (string list \<Rightarrow> nat \<Rightarrow> string list) \<Rightarrow>
   (fl, 'r, 'd) app_record list \<Rightarrow> (fl, 'r, 'd) geo_record list" where
  "choropleth_tail pycountry_countries random_choices df =
     (let df = geo_top df;
          countries = map name pycountry_countries;
          chosen = random_choices countries (length df);
          df = map2 (\<lambda>c r. with_Country c (get_iso3 pycountry_countries c) r) chosen df
      in filter (\<lambda>r. iso_alpha r \<noteq> None) df)"

definition prepare_choropleth_data ::
  "country list \<Rightarrow> (string list \<Rightarrow> nat \<Rightarrow> string list) \<Rightarrow>
   (string option, 'r, 'd) app_record list \<Rightarrow> (fl, 'r, 'd) geo_record list" where
  "prepare_choropleth_data pycountry_countries random_choices df_apps =
     choropleth_tail pycountry_countries random_choices (installs_head df_apps)"

text \<open>The same pipeline on the head without the branch.\<close>

definition prepare_choropleth_data_no_free ::
  "country list \<Rightarrow> (string list \<Rightarrow> nat \<Rightarrow> string list) \<Rightarrow>
   (string option, 'r, 'd) app_record list \<Rightarrow> (fl, 'r, 'd) geo_record list" where
  "prepare_choropleth_data_no_free pycountry_countries random_choices df_apps =
     choropleth_tail pycountry_countries random_choices (installs_head_no_free df_apps)"

definition choices_contract :: "(string list \<Rightarrow> nat \<Rightarrow> string list) \<Rightarrow> bool" where
  "choices_contract random_choices =
     (\<forall>population k. population \<noteq> [] \<longrightarrow>
        length (random_choices population k) = k \<and>
        set (random_choices population k) \<subseteq> set population)"

section \<open>The time series pipeline\<close>

text \<open>
  A timestamp is a calendar date (year, month, day); the time of day, which the
  month bucket discards, is left out. \<^verbatim>\<open>pd.to_numeric\<close> and
  \<^verbatim>\<open>pd.to_datetime\<close> are arguments of the pipeline: the first reads one cell
  (\<open>None\<close> where it fails, which \<^verbatim>\<open>errors='coerce'\<close> turns into NaN), the
  second a whole column, a missing cell included (\<open>None\<close> is NaT).
\<close>

type_synonym timestamp = "int \<times> nat \<times> nat"

definition set_Reviews :: "'s \<Rightarrow> ('i, 'r, 'd) app_record \<Rightarrow> ('i, 's, 'd) app_record" where
  "set_Reviews v r =
     \<lparr>App = App r, Category = Category r, Installs = Installs r, Reviews = v,
      Last_Updated = Last_Updated r\<rparr>"

definition dropna_Reviews ::
  "('i, fl option, 'd) app_record list \<Rightarrow> ('i, fl, 'd) app_record list" where
  "dropna_Reviews df =
     List.map_filter (\<lambda>r. map_option (\<lambda>v. set_Reviews v r) (notna (Reviews r))) df"

text \<open>
  \<^verbatim>\<open>str.contains('S', case=False)\<close>: the regular expression \<^verbatim>\<open>S\<close> without
  regard to case matches \<^verbatim>\<open>s\<close>, \<^verbatim>\<open>S\<close> and the long s (U+017F, the
  bytes C5 BF).
\<close>

fun has_long_s :: "string \<Rightarrow> bool" where
  "has_long_s (a # b # cs) = ((a = CHR 0xC5 \<and> b = CHR 0xBF) \<or> has_long_s (b # cs))"
| "has_long_s cs = False"

definition str_contains_S :: "string \<Rightarrow> bool" where
  "str_contains_S s = (list_ex (\<lambda>c. c = CHR ''s'' \<or> c = CHR ''S'') s \<or> has_long_s s)"

text \<open>
  The dictionary \<^verbatim>\<open>translations\<close> of line 101 (the name is a command of
  Isabelle, hence the suffix). The two labels are the UTF-8 bytes of the Hindi and
  the Tamil word of the source.
\<close>

definition label_Beauty :: string where
  "label_Beauty =
     [CHR 0xE0, CHR 0xA4, CHR 0xB8, CHR 0xE0, CHR 0xA5, CHR 0x81, CHR 0xE0,
      CHR 0xA4, CHR 0x82, CHR 0xE0, CHR 0xA4, CHR 0xA6, CHR 0xE0, CHR 0xA4,
      CHR 0xB0, CHR 0xE0, CHR 0xA4, CHR 0xA4, CHR 0xE0, CHR 0xA4, CHR 0xBE]"

definition label_Business :: string where
  "label_Business =
     [CHR 0xE0, CHR 0xAE, CHR 0xB5, CHR 0xE0, CHR 0xAE, CHR 0xB0, CHR 0xE0,
      CHR 0xAF, CHR 0x8D, CHR 0xE0, CHR 0xAE, CHR 0xA4, CHR 0xE0, CHR 0xAF,
      CHR 0x8D, CHR 0xE0, CHR 0xAE, CHR 0xA4, CHR 0xE0, CHR 0xAE, CHR 0x95,
      CHR 0xE0, CHR 0xAE, CHR 0xAE, CHR 0xE0, CHR 0xAF, CHR 0x8D]"

definition translations_dict :: "string \<rightharpoonup> string" where
  "translations_dict =
     map_of
       [(''Beauty'', label_Beauty),
        (''Business'', label_Business),
        (''Dating'', ''Dating'')]"

record ('i, 'r, 'd) tr_record = "('i, 'r, 'd) app_record" +
  Translated_Category :: string

record ('i, 'r, 'd) ts_record = "('i, 'r, 'd) tr_record" +
  Month :: timestamp

definition with_Translated_Category ::
  "string \<Rightarrow> ('i, 'r, 'd) app_record \<Rightarrow> ('i, 'r, 'd) tr_record" where
  "with_Translated_Category t r =
     \<lparr>App = App r, Category = Category r, Installs = Installs r, Reviews = Reviews r,
      Last_Updated = Last_Updated r, Translated_Category = t\<rparr>"

definition set_Last_Updated :: "'e \<Rightarrow> ('i, 'r, 'd) tr_record \<Rightarrow> ('i, 'r, 'e) tr_record" where
  "set_Last_Updated v r =
     \<lparr>App = App r, Category = Category r, Installs = Installs r, Reviews = Reviews r,
      Last_Updated = v, Translated_Category = Translated_Category r\<rparr>"

definition dropna_Last_Updated ::
  "('i, 'r, timestamp option) tr_record list \<Rightarrow> ('i, 'r, timestamp) tr_record list" where
  "dropna_Last_Updated df =
     List.map_filter (\<lambda>r. map_option (\<lambda>v. set_Last_Updated v r) (Last_Updated r)) df"

text \<open>\<^verbatim>\<open>.dt.to_period('M').dt.to_timestamp()\<close>: the first day of the month.\<close>

definition month_start :: "timestamp \<Rightarrow> timestamp" where
  "month_start t = (case t of (y, m, d) \<Rightarrow> (y, m, 1))"

definition with_Month :: "('i, 'r, timestamp) tr_record \<Rightarrow> ('i, 'r, timestamp) ts_record" where
  "with_Month r =
     \<lparr>App = App r, Category = Category r, Installs = Installs r, Reviews = Reviews r,
      Last_Updated = Last_Updated r, Translated_Category = Translated_Category r,
      Month = month_start (Last_Updated r)\<rparr>"

text \<open>Lines 90 to 99: the three filters.\<close>

definition growth_filtered ::
  "(string \<Rightarrow> fl option) \<Rightarrow> (fl, string option, 'd) app_record list \<Rightarrow>
   (fl, fl, 'd) app_record list" where
  "growth_filtered to_numeric df =
     (let df = map (\<lambda>r. set_Reviews (Option.bind (Reviews r) to_numeric) r) df;
          df = dropna_Reviews df;
          df = filter (\<lambda>r. fl_gt (Reviews r) (Fin 500)) df;
          df = filter (\<lambda>r. startswith_any (Category r) [''E'', ''C'', ''B'']) df
      in filter (\<lambda>r. \<not> startswith_any (py_lower (App r)) [''x'', ''y'', ''z''] \<and>
                      \<not> str_contains_S (App r)) df)"

text \<open>Lines 101 to 110: the records that are grouped.\<close>

definition growth_records ::
  "(string \<Rightarrow> fl option) \<Rightarrow> (string option list \<Rightarrow> timestamp option list) \<Rightarrow>
   (fl, string option, string option) app_record list \<Rightarrow>
   (fl, fl, timestamp) ts_record list" where
  "growth_records to_numeric to_datetime df =
     (let df = growth_filtered to_numeric df;
          df = map (\<lambda>r. with_Translated_Category
                 (case translations_dict (Category r) of Some t \<Rightarrow> t | None \<Rightarrow> Category r) r) df;
          df = map2 set_Last_Updated (to_datetime (map Last_Updated df)) df;
          df = dropna_Last_Updated df
      in map with_Month df)"

text \<open>The rows of \<^verbatim>\<open>df_grouped\<close>.\<close>

record growth_bucket =
  grouped_Month :: timestamp
  grouped_Translated_Category :: string
  grouped_Installs :: fl
  MoM_Growth :: fl
  Significant_Growth :: bool

text \<open>
  \<^verbatim>\<open>groupby('Translated_Category')['Installs'].pct_change()\<close>: the rows are read
  in order, \<open>seen\<close> holding the latest value of every group read so far.
\<close>

fun pct_change :: "(string \<rightharpoonup> fl) \<Rightarrow> (string \<times> fl) list \<Rightarrow> fl list" where
  "pct_change seen [] = []"
| "pct_change seen ((c, v) # rows) =
     (case seen c of None \<Rightarrow> NaN | Some p \<Rightarrow> fl_sub (fl_div v p) (Fin 1))
       # pct_change (seen(c \<mapsto> v)) rows"

definition make_bucket :: "(timestamp \<times> string) \<times> fl \<Rightarrow> fl \<Rightarrow> growth_bucket" where
  "make_bucket kv g =
     \<lparr>grouped_Month = fst (fst kv), grouped_Translated_Category = snd (fst kv),
      grouped_Installs = snd kv, MoM_Growth = g,
      Significant_Growth = fl_gt g (Fin (1 / 5))\<rparr>"

text \<open>Lines 112 to 119.\<close>

definition growth_buckets :: "(fl, fl, timestamp) ts_record list \<Rightarrow> growth_bucket list" where
  "growth_buckets df =
     (let df_grouped = groupby_sum (\<lambda>r. (Month r, Translated_Category r)) Installs df;
          growth = pct_change Map.empty (map (\<lambda>kv. (snd (fst kv), snd kv)) df_grouped)
      in map2 make_bucket df_grouped growth)"

definition prepare_time_series_data ::
  "(string \<Rightarrow> fl option) \<Rightarrow> (string option list \<Rightarrow> timestamp option list) \<Rightarrow>
   (string option, string option, string option) app_record list \<Rightarrow> growth_bucket list" where
  "prepare_time_series_data to_numeric to_datetime df_apps =
     growth_buckets (growth_records to_numeric to_datetime (installs_head df_apps))"

text \<open>The same pipeline on the head without the branch.\<close>

definition prepare_time_series_data_no_free ::
  "(string \<Rightarrow> fl option) \<Rightarrow> (string option list \<Rightarrow> timestamp option list) \<Rightarrow>
   (string option, string option, string option) app_record list \<Rightarrow> growth_bucket list" where
  "prepare_time_series_data_no_free to_numeric to_datetime df_apps =
     growth_buckets (growth_records to_numeric to_datetime (installs_head_no_free df_apps))"

section \<open>The visibility gate\<close>

definition show_map :: "int \<Rightarrow> bool" where
  "show_map hour = (18 \<le> hour \<and> hour < 20)"

definition show_chart :: "int \<Rightarrow> bool" where
  "show_chart hour = (18 \<le> hour \<and> hour < 21)"

section \<open>Library functions for the examples\<close>

text \<open>
  Two functions that read what every version of the library reads in the same way:
  a plain decimal numeral, and a column of dates written \<^verbatim>\<open>YYYY-MM-DD\<close>. The
  examples instantiate \<open>to_numeric\<close> and \<open>to_datetime\<close> with them.
\<close>

definition decimal_to_numeric :: "string \<Rightarrow> fl option" where
  "decimal_to_numeric s =
     (if s \<noteq> [] \<and> list_all is_digit s then Some (Fin (of_nat (digits_val s))) else None)"

definition iso_date :: "string \<Rightarrow> timestamp option" where
  "iso_date s =
     (let y = take 4 s; m = take 2 (drop 5 s); d = drop 8 s
      in if length s = 10 \<and> take 1 (drop 4 s) = ''-'' \<and> take 1 (drop 7 s) = ''-'' \<and>
            list_all is_digit (y @ m @ d) \<and>
            1 \<le> digits_val m \<and> digits_val m \<le> 12 \<and>
            1 \<le> digits_val d \<and> digits_val d \<le> 31
         then Some (int (digits_val y), digits_val m, digits_val d)
         else None)"

definition iso_to_datetime :: "string option list \<Rightarrow> timestamp option list" where
  "iso_to_datetime col = map (\<lambda>cell. Option.bind cell iso_date) col"

text \<open>A generator that returns the first member of the population \<open>k\<close> times.\<close>

definition first_choices :: "string list \<Rightarrow> nat \<Rightarrow> string list" where
  "first_choices population k = replicate k (hd population)"

section \<open>Example data\<close>

text \<open>A row of the data set whose five cells are all present.\<close>

definition raw_row :: "string \<Rightarrow> string \<Rightarrow> string \<Rightarrow> string \<Rightarrow> string \<Rightarrow> raw_record" where
  "raw_row app cat inst revs upd =
     \<lparr>App = app, Category = cat, Installs = Some inst, Reviews = Some revs,
      Last_Updated = Some upd\<rparr>"

text \<open>The row of the end-to-end scenario.\<close>

definition foo_row :: raw_record where
  "foo_row = raw_row ''Foo'' ''BUSINESS'' ''10,000+'' ''600'' ''2018-03-05''"

text \<open>Two rows of one category with a million installs each.\<close>

definition big_rows :: "raw_record list" where
  "big_rows =
     [raw_row ''Foo'' ''BUSINESS'' ''1,000,000+'' ''600'' ''2018-03-05'',
      raw_row ''Bar'' ''BUSINESS'' ''1,000,000+'' ''700'' ''2018-04-10'']"

text \<open>An entry of the country table.\<close>

definition india :: country where
  "india =
     \<lparr>alpha_2 = ''IN'', alpha_3 = ''IND'',
      flag = [CHR 0xF0, CHR 0x9F, CHR 0x87, CHR 0xAE, CHR 0xF0, CHR 0x9F, CHR 0x87, CHR 0xB3],
      name = ''India'', numeric = ''356'', official_name = Some ''Republic of India'',
      common_name = None\<rparr>"

section \<open>Evaluation of the text functions\<close>

lemmas float_eval = py_float_def float_strip_def is_float_space_def is_digit_def
  parse_unsigned_def parse_decimal_def decimal_value_def digits_val_def digit_val_def
  scale10_def parse_exponent_def parse_inf_or_nan_def py_lower_def to_lower_def

lemmas cleaner_eval = install_cleaner_def str_contains_digit_def str_replace_plus_comma_def
  clean_installs_def notna_def py_strip_def is_space_def

lemma py_float_1000000: "py_float ''1000000'' = Some (Fin 1000000)"
  by (simp add: float_eval)

lemma py_float_10000: "py_float ''10000'' = Some (Fin 10000)"
  by (simp add: float_eval)

lemma py_float_0: "py_float ''0'' = Some (Fin 0)"
  by (simp add: float_eval)

lemma py_float_1a: "py_float ''1a'' = None"
  by (simp add: float_eval)

lemma install_cleaner_1000000: "install_cleaner (Some ''1,000,000+'') = Some (Fin 1000000)"
  by (simp add: cleaner_eval py_float_1000000 py_lower_def to_lower_def is_digit_def)

lemma install_cleaner_0: "install_cleaner (Some ''0+'') = Some (Fin 0)"
  by (simp add: cleaner_eval py_float_0 py_lower_def to_lower_def is_digit_def)

lemma install_cleaner_no_digit:
  "install_cleaner (Some ''Free'') = None" "install_cleaner (Some ''abc'') = None"
  by (simp_all add: cleaner_eval is_digit_def)

section \<open>The head of the pipelines\<close>

lemma install_cleaner_Some:
  "install_cleaner (Some x) =
     (if list_ex is_digit x then notna (clean_installs (str_replace_plus_comma x)) else None)"
  by (simp add: install_cleaner_def str_contains_digit_def)

lemma install_cleaner_unparsed:
  "py_float (str_replace_plus_comma x) = None \<Longrightarrow> install_cleaner (Some x) = None"
  by (simp add: install_cleaner_def clean_installs_def notna_def)

lemma set_Installs_simps [simp]:
  "Installs (set_Installs v r) = v"
  "App (set_Installs v r) = App r"
  "Category (set_Installs v r) = Category r"
  "Reviews (set_Installs v r) = Reviews r"
  "Last_Updated (set_Installs v r) = Last_Updated r"
  by (simp_all add: set_Installs_def)

lemma installs_head_with_Installs:
  "map Installs (installs_head_with clean df) =
   List.map_filter (\<lambda>cell. if str_contains_digit cell
       then notna (Option.bind (map_option str_replace_plus_comma cell) clean) else None)
     (map Installs df)"
  by (induction df)
     (auto simp: installs_head_with_def dropna_Installs_def List.map_filter_simps
           split: option.splits)

lemma installs_head_Installs:
  "map Installs (installs_head df) = List.map_filter install_cleaner (map Installs df)"
  unfolding installs_head_def installs_head_with_Installs install_cleaner_def ..

text \<open>
  C1. The cleaner of the \<open>Installs\<close> column maps \<^verbatim>\<open>1,000,000+\<close> to 1000000 and
  \<^verbatim>\<open>0+\<close> to 0, and \<^verbatim>\<open>Free\<close> and \<^verbatim>\<open>abc\<close> to an absent value. For every
  text the characters \<^verbatim>\<open>+\<close> and \<^verbatim>\<open>,\<close> are removed before \<^verbatim>\<open>float\<close> reads
  it, and a text that \<^verbatim>\<open>float\<close> rejects is absent. Both pipelines start with this
  cleaner, and a row whose value is absent is dropped from the frame.
\<close>

theorem C1_install_cleaner:
  "install_cleaner (Some ''1,000,000+'') = Some (Fin 1000000) \<and>
   install_cleaner (Some ''0+'') = Some (Fin 0) \<and>
   install_cleaner (Some ''Free'') = None \<and>
   install_cleaner (Some ''abc'') = None \<and>
   (\<forall>x. install_cleaner (Some x) =
      (if list_ex is_digit x then notna (clean_installs (str_replace_plus_comma x)) else None)) \<and>
   (\<forall>x. py_float (str_replace_plus_comma x) = None \<longrightarrow> install_cleaner (Some x) = None) \<and>
   (\<forall>df_apps :: raw_record list.
      map Installs (installs_head df_apps) =
        List.map_filter install_cleaner (map Installs df_apps) \<and>
      (\<forall>c rc. prepare_choropleth_data c rc df_apps =
         choropleth_tail c rc (installs_head df_apps)) \<and>
      (\<forall>tn td. prepare_time_series_data tn td df_apps =
         growth_buckets (growth_records tn td (installs_head df_apps))))"
proof (intro conjI allI impI)
  show "install_cleaner (Some ''1,000,000+'') = Some (Fin 1000000)"
    by (rule install_cleaner_1000000)
  show "install_cleaner (Some ''0+'') = Some (Fin 0)"
    by (rule install_cleaner_0)
  show "install_cleaner (Some ''Free'') = None" "install_cleaner (Some ''abc'') = None"
    by (rule install_cleaner_no_digit)+
  show "install_cleaner (Some x) =
      (if list_ex is_digit x then notna (clean_installs (str_replace_plus_comma x)) else None)"
    for x by (rule install_cleaner_Some)
  show "install_cleaner (Some x) = None" if "py_float (str_replace_plus_comma x) = None"
    for x using that by (rule install_cleaner_unparsed)
  show "map Installs (installs_head df_apps) =
      List.map_filter install_cleaner (map Installs df_apps)"
    for df_apps :: "raw_record list" by (rule installs_head_Installs)
  show "prepare_choropleth_data c rc df_apps = choropleth_tail c rc (installs_head df_apps)"
    for c rc and df_apps :: "raw_record list" by (simp add: prepare_choropleth_data_def)
  show "prepare_time_series_data tn td df_apps =
      growth_buckets (growth_records tn td (installs_head df_apps))"
    for tn td and df_apps :: "raw_record list" by (simp add: prepare_time_series_data_def)
qed

theorem C1_install_cleaner_witness:
  "py_float (str_replace_plus_comma ''1a'') = None \<and> install_cleaner (Some ''1a'') = None"
proof -
  have h: "py_float (str_replace_plus_comma ''1a'') = None"
    by (simp add: str_replace_plus_comma_def py_float_1a)
  from C1_install_cleaner
  have "\<forall>x. py_float (str_replace_plus_comma x) = None \<longrightarrow> install_cleaner (Some x) = None"
    by (elim conjE)
  with h show ?thesis by blast
qed

text \<open>
  C4. The two flags are functions of the hour alone: the map is shown when the hour
  is in [18, 20), the chart when it is in [18, 21). At 19 both are shown, at 20 the
  chart only, at 21 and at 17 neither.
\<close>

theorem C4_visibility_gate:
  "(\<forall>hour. show_map hour = (hour \<in> {18..<20}) \<and> show_chart hour = (hour \<in> {18..<21})) \<and>
   show_map 19 \<and> show_chart 19 \<and>
   \<not> show_map 20 \<and> show_chart 20 \<and>
   \<not> show_map 21 \<and> \<not> show_chart 21 \<and>
   \<not> show_map 17 \<and> \<not> show_chart 17"
  by (simp add: show_map_def show_chart_def)

section \<open>The branch for \<^verbatim>\<open>free\<close>\<close>

lemma is_digit_not_space: "is_digit c \<Longrightarrow> \<not> is_space c"
  by (auto simp: is_digit_def is_space_def)

lemma is_digit_to_lower: "is_digit c \<Longrightarrow> to_lower c = c"
  apply (simp add: is_digit_def)
  apply (elim disjE)
  apply (simp_all add: to_lower_def)
  done

lemma in_set_dropWhile: "x \<in> set xs \<Longrightarrow> \<not> P x \<Longrightarrow> x \<in> set (dropWhile P xs)"
  by (induction xs) auto

lemma in_set_py_strip: "x \<in> set s \<Longrightarrow> \<not> is_space x \<Longrightarrow> x \<in> set (py_strip s)"
  by (simp add: py_strip_def in_set_dropWhile)

lemma digit_survives:
  assumes "list_ex is_digit x"
  shows "list_ex is_digit (py_lower (py_strip (str_replace_plus_comma x)))"
proof -
  from assms obtain c where c: "c \<in> set x" "is_digit c"
    by (auto simp: list_ex_iff)
  then have "c \<noteq> CHR ''+''" "c \<noteq> CHR '',''"
    by (auto simp: is_digit_def)
  with c have "c \<in> set (str_replace_plus_comma x)"
    by (simp add: str_replace_plus_comma_def)
  with c have "c \<in> set (py_strip (str_replace_plus_comma x))"
    by (simp add: in_set_py_strip is_digit_not_space)
  then have "to_lower c \<in> set (py_lower (py_strip (str_replace_plus_comma x)))"
    by (simp add: py_lower_def)
  with c have "c \<in> set (py_lower (py_strip (str_replace_plus_comma x)))"
    by (simp add: is_digit_to_lower)
  with c show ?thesis
    unfolding list_ex_iff by blast
qed

lemma no_digit_in_free: "\<not> list_ex is_digit ''free''"
  by (simp add: is_digit_def)

lemma free_unreachable:
  "list_ex is_digit x \<Longrightarrow> py_lower (py_strip (str_replace_plus_comma x)) \<noteq> ''free''"
  using digit_survives [of x] no_digit_in_free by metis

lemma clean_installs_no_free_eq:
  "list_ex is_digit x \<Longrightarrow>
   clean_installs (str_replace_plus_comma x) = clean_installs_no_free (str_replace_plus_comma x)"
  by (simp add: clean_installs_def clean_installs_no_free_def free_unreachable)

lemma installs_head_no_free_eq: "installs_head_no_free df = installs_head df"
proof -
  have "map (\<lambda>r. set_Installs (Option.bind (Installs r) clean_installs_no_free) r)
          (map (\<lambda>r. set_Installs (map_option str_replace_plus_comma (Installs r)) r)
            (filter (\<lambda>r. str_contains_digit (Installs r)) df)) =
        map (\<lambda>r. set_Installs (Option.bind (Installs r) clean_installs) r)
          (map (\<lambda>r. set_Installs (map_option str_replace_plus_comma (Installs r)) r)
            (filter (\<lambda>r. str_contains_digit (Installs r)) df))"
    by (induction df)
       (auto simp: str_contains_digit_def clean_installs_no_free_eq split: option.splits)
  then show ?thesis
    unfolding installs_head_no_free_def installs_head_def installs_head_with_def Let_def
    by (rule arg_cong)
qed

text \<open>
  C9. The branch of \<^verbatim>\<open>clean_installs\<close> for the text \<^verbatim>\<open>free\<close> is never
  taken: a cell that passes the digit filter still holds a digit after \<^verbatim>\<open>+\<close>
  and \<^verbatim>\<open>,\<close> are removed, after \<^verbatim>\<open>strip\<close> and after \<^verbatim>\<open>lower\<close>, so it
  is not \<^verbatim>\<open>free\<close>. Both pipelines without the branch return what the pipelines
  with it return, for every data set.
\<close>

theorem C9_free_branch_unreachable:
  "(\<forall>x. list_ex is_digit x \<longrightarrow>
      py_lower (py_strip (str_replace_plus_comma x)) \<noteq> ''free'' \<and>
      clean_installs_no_free (str_replace_plus_comma x) =
        clean_installs (str_replace_plus_comma x)) \<and>
   (\<forall>df_apps :: raw_record list.
      installs_head_no_free df_apps = installs_head df_apps \<and>
      (\<forall>c rc. prepare_choropleth_data_no_free c rc df_apps =
         prepare_choropleth_data c rc df_apps) \<and>
      (\<forall>tn td. prepare_time_series_data_no_free tn td df_apps =
         prepare_time_series_data tn td df_apps))"
  by (simp add: free_unreachable clean_installs_no_free_eq installs_head_no_free_eq
      prepare_choropleth_data_no_free_def prepare_choropleth_data_def
      prepare_time_series_data_no_free_def prepare_time_series_data_def)

theorem C9_free_branch_unreachable_witness:
  "list_ex is_digit ''1,0+'' \<and>
   py_lower (py_strip (str_replace_plus_comma ''1,0+'')) \<noteq> ''free''"
proof -
  have h: "list_ex is_digit ''1,0+''"
    by (simp add: is_digit_def)
  from C9_free_branch_unreachable
  have "\<forall>x. list_ex is_digit x \<longrightarrow>
      py_lower (py_strip (str_replace_plus_comma x)) \<noteq> ''free'' \<and>
      clean_installs_no_free (str_replace_plus_comma x) =
        clean_installs (str_replace_plus_comma x)"
    by (elim conjE)
  with h show ?thesis by blast
qed

section \<open>Sorting and grouping\<close>

lemma set_insert_desc [simp]: "set (insert_desc x ys) = insert x (set ys)"
  by (induction ys) auto

lemma sort_values_desc_simps [simp]:
  "sort_values_desc [] = []"
  "sort_values_desc (x # xs) = insert_desc x (sort_values_desc xs)"
  by (simp_all add: sort_values_desc_def)

lemma set_sort_values_desc [simp]: "set (sort_values_desc xs) = set xs"
  by (induction xs) auto

lemma distinct_insert_desc:
  "distinct (map fst (insert_desc x ys)) = (fst x \<notin> fst ` set ys \<and> distinct (map fst ys))"
  by (induction ys) auto

lemma distinct_sort_values_desc:
  "distinct (map fst (sort_values_desc xs)) = distinct (map fst xs)"
  by (induction xs) (auto simp: distinct_insert_desc)

lemma fl_ge_total: "x \<noteq> NaN \<Longrightarrow> y \<noteq> NaN \<Longrightarrow> \<not> fl_gt y x \<Longrightarrow> fl_ge x y"
  by (simp add: fl_ge_def)

lemma fl_gt_ge: "fl_gt y x \<Longrightarrow> fl_ge y x"
  by (cases x; cases y) (auto simp: fl_ge_def)

lemma fl_ge_trans: "fl_ge x y \<Longrightarrow> fl_ge y z \<Longrightarrow> fl_ge x z"
  by (cases x; cases y; cases z) (auto simp: fl_ge_def)

lemma fl_gt_not_NaN: "fl_gt x y \<Longrightarrow> x \<noteq> NaN"
  by (cases x) auto

lemma sorted_insert_desc:
  assumes "sorted_wrt (\<lambda>a b. fl_ge (snd a) (snd b)) ys" "snd x \<noteq> NaN"
    "\<forall>y\<in>set ys. snd y \<noteq> NaN"
  shows "sorted_wrt (\<lambda>a b. fl_ge (snd a) (snd b)) (insert_desc x ys)"
  using assms
proof (induction ys)
  case Nil
  then show ?case by simp
next
  case (Cons y ys)
  show ?case
  proof (cases "fl_gt (snd y) (snd x)")
    case True
    with Cons show ?thesis
      by (auto simp: fl_gt_ge)
  next
    case False
    with Cons.prems have "fl_ge (snd x) (snd y)"
      by (simp add: fl_ge_total)
    with Cons.prems False show ?thesis
      by (auto intro: fl_ge_trans)
  qed
qed

lemma sorted_sort_values_desc:
  "\<forall>y\<in>set xs. snd y \<noteq> NaN \<Longrightarrow>
   sorted_wrt (\<lambda>a b. fl_ge (snd a) (snd b)) (sort_values_desc xs)"
proof (induction xs)
  case Nil
  then show ?case by simp
next
  case (Cons x xs)
  then have "sorted_wrt (\<lambda>a b. fl_ge (snd a) (snd b)) (insert_desc x (sort_values_desc xs))"
    by (intro sorted_insert_desc) auto
  then show ?case by simp
qed

lemma groupby_sum_keys: "map fst (groupby_sum key val df) = sort (remdups (map key df))"
  by (simp add: groupby_sum_def comp_def)

lemma distinct_groupby_sum: "distinct (map fst (groupby_sum key val df))"
  by (simp add: groupby_sum_keys)

lemma sorted_groupby_sum: "sorted (map fst (groupby_sum key val df))"
  by (simp add: groupby_sum_keys)

lemma set_groupby_sum:
  "set (groupby_sum key val df) =
   (\<lambda>k. (k, fl_sum (map val (filter (\<lambda>r. key r = k) df)))) ` key ` set df"
  by (auto simp: groupby_sum_def)

section \<open>The top categories\<close>

lemma top5_length: "length (top5 df) \<le> 5"
  by (simp add: top5_def)

lemma top5_distinct: "distinct (top5 df)"
proof -
  have "distinct (map fst (filter (\<lambda>kv. fl_gt (snd kv) (Fin 1000000)) (top_categories df)))"
    by (simp add: top_categories_def distinct_groupby_sum distinct_map_filter)
  then have "distinct (map fst (sort_values_desc
      (filter (\<lambda>kv. fl_gt (snd kv) (Fin 1000000)) (top_categories df))))"
    by (simp add: distinct_sort_values_desc)
  then show ?thesis
    unfolding top5_def take_map [symmetric] by (rule distinct_take)
qed

lemma top5_entry:
  assumes "kv \<in> set (take 5 (sort_values_desc
      (filter (\<lambda>kv. fl_gt (snd kv) (Fin 1000000)) (top_categories df))))"
  shows "map_of (top_categories df) (fst kv) = Some (snd kv)"
    and "fl_gt (snd kv) (Fin 1000000)"
    and "snd kv = fl_sum (map Installs (filter (\<lambda>r. Category r = fst kv) (geo_wanted df)))"
proof -
  from assms have "kv \<in> set (sort_values_desc
      (filter (\<lambda>kv. fl_gt (snd kv) (Fin 1000000)) (top_categories df)))"
    by (rule in_set_takeD)
  then have kv: "kv \<in> set (top_categories df)" and gt: "fl_gt (snd kv) (Fin 1000000)"
    by simp_all
  show "fl_gt (snd kv) (Fin 1000000)" by (rule gt)
  from kv have "(fst kv, snd kv) \<in> set (top_categories df)" by simp
  moreover have "distinct (map fst (top_categories df))"
    by (simp add: top_categories_def distinct_groupby_sum)
  ultimately show "map_of (top_categories df) (fst kv) = Some (snd kv)"
    by (simp only: map_of_eq_Some_iff)
  from kv show "snd kv = fl_sum (map Installs (filter (\<lambda>r. Category r = fst kv) (geo_wanted df)))"
    by (auto simp: top_categories_def set_groupby_sum)
qed

lemma top5_member:
  assumes "c \<in> set (top5 df)"
  shows "\<exists>v. map_of (top_categories df) c = Some v \<and> fl_gt v (Fin 1000000) \<and>
     v = fl_sum (map Installs (filter (\<lambda>r. Category r = c) (geo_wanted df)))"
proof -
  from assms obtain kv where kv: "kv \<in> set (take 5 (sort_values_desc
      (filter (\<lambda>kv. fl_gt (snd kv) (Fin 1000000)) (top_categories df))))" and c: "c = fst kv"
    by (auto simp: top5_def)
  from top5_entry [OF kv] c show ?thesis by blast
qed

lemma top5_keys: "set (top5 df) \<subseteq> fst ` set (top_categories df)"
proof
  fix c assume "c \<in> set (top5 df)"
  from top5_member [OF this] obtain v where "map_of (top_categories df) c = Some v" by blast
  then have "(c, v) \<in> set (top_categories df)" by (rule map_of_SomeD)
  then show "c \<in> fst ` set (top_categories df)" by force
qed

lemma top5_sorted:
  "sorted_wrt (\<lambda>c d. fl_ge (the (map_of (top_categories df) c)) (the (map_of (top_categories df) d)))
     (top5 df)"
proof -
  let ?F = "filter (\<lambda>kv. fl_gt (snd kv) (Fin 1000000)) (top_categories df)"
  let ?T = "take 5 (sort_values_desc ?F)"
  have "\<forall>y\<in>set ?F. snd y \<noteq> NaN"
    by (auto dest: fl_gt_not_NaN)
  then have "sorted_wrt (\<lambda>a b. fl_ge (snd a) (snd b)) (sort_values_desc ?F)"
    by (rule sorted_sort_values_desc)
  then have "sorted_wrt (\<lambda>a b. fl_ge (snd a) (snd b)) ?T"
    by (rule sorted_wrt_take)
  then have "sorted_wrt (\<lambda>a b. fl_ge (the (map_of (top_categories df) (fst a)))
      (the (map_of (top_categories df) (fst b)))) ?T"
    by (rule sorted_wrt_mono_rel [rotated]) (simp add: top5_entry(1))
  then show ?thesis
    by (simp add: top5_def sorted_wrt_map)
qed

section \<open>Rows of the choropleth pipeline\<close>

lemma with_Country_simps [simp]:
  "App (with_Country c a r) = App r"
  "Category (with_Country c a r) = Category r"
  "Installs (with_Country c a r) = Installs r"
  "Reviews (with_Country c a r) = Reviews r"
  "Last_Updated (with_Country c a r) = Last_Updated r"
  "Country (with_Country c a r) = c"
  "iso_alpha (with_Country c a r) = a"
  by (simp_all add: with_Country_def)

lemma geo_wanted_Category:
  "r \<in> set (geo_wanted df) \<Longrightarrow> \<not> startswith_any (Category r) [''A'', ''C'', ''G'', ''S'']"
  by (simp add: geo_wanted_def)

lemma geo_top_wanted: "r \<in> set (geo_top df) \<Longrightarrow> r \<in> set (geo_wanted df)"
  by (simp add: geo_top_def)

lemma choropleth_tail_rows:
  assumes "r \<in> set (choropleth_tail tbl rc df)"
  shows "\<exists>r'\<in>set (geo_top df). \<exists>c\<in>set (rc (map name tbl) (length (geo_top df))).
     r = with_Country c (get_iso3 tbl c) r'"
proof -
  from assms obtain c r' where "(c, r') \<in> set (zip (rc (map name tbl) (length (geo_top df))) (geo_top df))"
    and r: "r = with_Country c (get_iso3 tbl c) r'"
    by (auto simp: choropleth_tail_def Let_def)
  then have "c \<in> set (rc (map name tbl) (length (geo_top df)))" "r' \<in> set (geo_top df)"
    by (auto dest: set_zip_leftD set_zip_rightD)
  with r show ?thesis by blast
qed

lemma choropleth_tail_Category:
  assumes "r \<in> set (choropleth_tail tbl rc df)"
  shows "\<not> startswith_any (Category r) [''A'', ''C'', ''G'', ''S'']"
proof -
  from choropleth_tail_rows [OF assms] obtain r' c
    where "r' \<in> set (geo_top df)" "r = with_Country c (get_iso3 tbl c) r'"
    by blast
  then show ?thesis
    by (auto dest!: geo_top_wanted geo_wanted_Category)
qed

lemma top_categories_keys: "fst ` set (top_categories df) = Category ` set (geo_wanted df)"
  by (auto simp: top_categories_def set_groupby_sum image_image)

lemma not_startswith_any_ACGS:
  "\<not> startswith_any s [''A'', ''C'', ''G'', ''S''] \<longleftrightarrow>
   take 1 s \<noteq> ''A'' \<and> take 1 s \<noteq> ''C'' \<and> take 1 s \<noteq> ''G'' \<and> take 1 s \<noteq> ''S''"
  by (simp add: startswith_any_def startswith_def)

section \<open>The country table\<close>

lemma index_get_in_table: "index_get field tbl v = Some d \<Longrightarrow> d \<in> set tbl"
proof -
  assume a: "index_get field tbl v = Some d"
  let ?cs = "filter (\<lambda>c. map_option py_lower (field c) = Some v) tbl"
  from a have "?cs \<noteq> []" and "d = last ?cs"
    by (auto simp: index_get_def split: list.splits)
  then have "d \<in> set ?cs"
    by (metis last_in_set)
  moreover have "set ?cs \<subseteq> set tbl"
    by (rule filter_is_subset)
  ultimately show ?thesis by blast
qed

lemma index_get_hit:
  "c \<in> set tbl \<Longrightarrow> field c = Some s \<Longrightarrow> index_get field tbl (py_lower s) \<noteq> None"
proof -
  assume "c \<in> set tbl" "field c = Some s"
  then have "c \<in> set (filter (\<lambda>c. map_option py_lower (field c) = Some (py_lower s)) tbl)"
    by simp
  then have "filter (\<lambda>c. map_option py_lower (field c) = Some (py_lower s)) tbl \<noteq> []"
    by (metis empty_iff list.set(1))
  then show ?thesis
    by (simp add: index_get_def split: list.splits)
qed

lemma first_some_None: "first_some xs = None \<longleftrightarrow> (\<forall>x\<in>set xs. x = None)"
  by (induction xs rule: first_some.induct) auto

lemma first_some_Some: "first_some xs = Some d \<Longrightarrow> Some d \<in> set xs"
  by (induction xs rule: first_some.induct) auto

lemma countries_lookup_in_table: "countries_lookup tbl v = Some d \<Longrightarrow> d \<in> set tbl"
  unfolding countries_lookup_def Let_def
  by (drule first_some_Some) (auto dest: index_get_in_table [OF sym])

lemma countries_lookup_name:
  assumes "c \<in> set tbl"
  shows "countries_lookup tbl (name c) \<noteq> None"
proof -
  from assms have "index_get (\<lambda>c. Some (name c)) tbl (py_lower (name c)) \<noteq> None"
    by (rule index_get_hit) simp
  then show ?thesis
    by (simp add: countries_lookup_def Let_def first_some_None del: not_None_eq)
qed

lemma get_iso3_name:
  assumes "n \<in> set (map name tbl)"
  shows "\<exists>d\<in>set tbl. get_iso3 tbl n = Some (alpha_3 d)"
proof -
  from assms obtain c where "c \<in> set tbl" "n = name c" by auto
  with countries_lookup_name obtain d where "countries_lookup tbl n = Some d"
    by blast
  then show ?thesis
    by (auto simp: get_iso3_def dest: countries_lookup_in_table)
qed

lemma choropleth_tail_no_drop:
  assumes "choices_contract rc" "tbl \<noteq> []"
  shows "choropleth_tail tbl rc df =
    map2 (\<lambda>c r. with_Country c (get_iso3 tbl c) r)
      (rc (map name tbl) (length (geo_top df))) (geo_top df)"
    and "length (rc (map name tbl) (length (geo_top df))) = length (geo_top df)"
    and "set (rc (map name tbl) (length (geo_top df))) \<subseteq> set (map name tbl)"
proof -
  let ?chosen = "rc (map name tbl) (length (geo_top df))"
  from assms have "map name tbl \<noteq> []" by simp
  with assms(1) show len: "length ?chosen = length (geo_top df)"
    and sub: "set ?chosen \<subseteq> set (map name tbl)"
    unfolding choices_contract_def by blast+
  have "\<forall>x\<in>set (zip ?chosen (geo_top df)).
      iso_alpha (case x of (c, r) \<Rightarrow> with_Country c (get_iso3 tbl c) r) \<noteq> None"
  proof
    fix x assume "x \<in> set (zip ?chosen (geo_top df))"
    then have "fst x \<in> set ?chosen"
      by (metis prod.collapse set_zip_leftD)
    with sub have "fst x \<in> set (map name tbl)" by blast
    from get_iso3_name [OF this] show
      "iso_alpha (case x of (c, r) \<Rightarrow> with_Country c (get_iso3 tbl c) r) \<noteq> None"
      by (cases x) auto
  qed
  then show "choropleth_tail tbl rc df =
    map2 (\<lambda>c r. with_Country c (get_iso3 tbl c) r) ?chosen (geo_top df)"
    by (simp add: choropleth_tail_def Let_def filter_map comp_def)
qed

lemma map2_snd_fields:
  "length xs = length ys \<Longrightarrow> (\<And>x y. g (f x y) = h y) \<Longrightarrow> map g (map2 f xs ys) = map h ys"
  by (induction xs ys rule: list_induct2) auto

section \<open>Evaluation of the choropleth pipeline\<close>

lemma installs_head_Nil [simp]: "installs_head [] = []"
  by (simp add: installs_head_def installs_head_with_def dropna_Installs_def
      List.map_filter_simps)

lemma installs_head_Cons:
  "installs_head (r # df) =
     (case install_cleaner (Installs r) of
        None \<Rightarrow> installs_head df
      | Some v \<Rightarrow> set_Installs v r # installs_head df)"
  by (auto simp: installs_head_def installs_head_with_def dropna_Installs_def
      List.map_filter_simps install_cleaner_def set_Installs_def split: option.splits)

lemma raw_row_simps [simp]:
  "App (raw_row a c i r u) = a" "Category (raw_row a c i r u) = c"
  "Installs (raw_row a c i r u) = Some i" "Reviews (raw_row a c i r u) = Some r"
  "Last_Updated (raw_row a c i r u) = Some u"
  by (simp_all add: raw_row_def)

lemma installs_head_big_rows:
  "installs_head big_rows =
     [set_Installs (Fin 1000000) (raw_row ''Foo'' ''BUSINESS'' ''1,000,000+'' ''600'' ''2018-03-05''),
      set_Installs (Fin 1000000) (raw_row ''Bar'' ''BUSINESS'' ''1,000,000+'' ''700'' ''2018-04-10'')]"
  by (simp add: big_rows_def installs_head_Cons install_cleaner_1000000)

lemma geo_wanted_big_rows: "geo_wanted (installs_head big_rows) = installs_head big_rows"
  by (simp add: installs_head_big_rows geo_wanted_def startswith_any_def startswith_def)

lemma top_categories_big_rows:
  "top_categories (installs_head big_rows) = [(''BUSINESS'', Fin 2000000)]"
  by (simp add: top_categories_def geo_wanted_big_rows groupby_sum_def)
     (simp add: installs_head_big_rows fl_sum_def)

lemma top5_big_rows: "top5 (installs_head big_rows) = [''BUSINESS'']"
  by (simp add: top5_def top_categories_big_rows)

lemma geo_top_big_rows: "geo_top (installs_head big_rows) = installs_head big_rows"
  by (simp add: geo_top_def top5_big_rows geo_wanted_big_rows) (simp add: installs_head_big_rows)

lemma get_iso3_india: "get_iso3 [india] ''India'' = Some ''IND''"
  by (simp add: get_iso3_def countries_lookup_def index_get_def india_def py_lower_def to_lower_def)

lemma choices_contract_first_choices: "choices_contract first_choices"
  by (auto simp: choices_contract_def first_choices_def)

lemma choropleth_big_rows:
  "prepare_choropleth_data [india] first_choices big_rows =
     map (with_Country ''India'' (Some ''IND'')) (installs_head big_rows)"
  by (simp add: prepare_choropleth_data_def choropleth_tail_def geo_top_big_rows)
     (simp add: installs_head_big_rows first_choices_def india_def get_iso3_india [unfolded india_def]
        numeral_2_eq_2)

section \<open>The claims on the choropleth pipeline\<close>

text \<open>
  C5. For every data set the list \<^verbatim>\<open>top5\<close> of the choropleth pipeline has at
  most five members, all different; every member is a key of the category totals
  and its total, the sum of the installs of its records, is greater than 1,000,000;
  and the members are in descending order of their totals.
\<close>

theorem C5_top_category_set:
  fixes df_apps :: "raw_record list"
  shows
  "length (top5 (installs_head df_apps)) \<le> 5 \<and>
   distinct (top5 (installs_head df_apps)) \<and>
   (\<forall>c\<in>set (top5 (installs_head df_apps)).
      \<exists>v. map_of (top_categories (installs_head df_apps)) c = Some v \<and>
          fl_gt v (Fin 1000000) \<and>
          v = fl_sum (map Installs
                (filter (\<lambda>r. Category r = c) (geo_wanted (installs_head df_apps))))) \<and>
   sorted_wrt
     (\<lambda>c d. fl_ge (the (map_of (top_categories (installs_head df_apps)) c))
                   (the (map_of (top_categories (installs_head df_apps)) d)))
     (top5 (installs_head df_apps)) \<and>
   set (top5 (installs_head df_apps)) \<subseteq> fst ` set (top_categories (installs_head df_apps))"
  using top5_length top5_distinct top5_member top5_sorted top5_keys
  by blast

theorem C5_top_category_set_witness:
  "''BUSINESS'' \<in> set (top5 (installs_head big_rows)) \<and>
   (\<exists>v. map_of (top_categories (installs_head big_rows)) ''BUSINESS'' = Some v \<and>
        fl_gt v (Fin 1000000))"
proof -
  have h: "''BUSINESS'' \<in> set (top5 (installs_head big_rows))"
    by (simp add: top5_big_rows)
  with C5_top_category_set [of big_rows] show ?thesis
    by blast
qed

text \<open>
  C7. No record of the output of the choropleth pipeline has a category that
  begins with \<^verbatim>\<open>A\<close>, \<^verbatim>\<open>C\<close>, \<^verbatim>\<open>G\<close> or \<^verbatim>\<open>S\<close>. The exclusion comes before
  the totals and the selection: no such category is a key of the totals or a member
  of \<^verbatim>\<open>top5\<close>.
\<close>

theorem C7_excluded_categories:
  fixes df_apps :: "raw_record list"
  shows
  "(\<forall>r\<in>set (prepare_choropleth_data pycountry_countries random_choices df_apps).
      \<not> startswith_any (Category r) [''A'', ''C'', ''G'', ''S''] \<and>
      take 1 (Category r) \<noteq> ''A'' \<and> take 1 (Category r) \<noteq> ''C'' \<and>
      take 1 (Category r) \<noteq> ''G'' \<and> take 1 (Category r) \<noteq> ''S'') \<and>
   (\<forall>c\<in>fst ` set (top_categories (installs_head df_apps)).
      \<not> startswith_any c [''A'', ''C'', ''G'', ''S'']) \<and>
   (\<forall>c\<in>set (top5 (installs_head df_apps)).
      \<not> startswith_any c [''A'', ''C'', ''G'', ''S''])"
proof (intro conjI ballI)
  fix r assume "r \<in> set (prepare_choropleth_data pycountry_countries random_choices df_apps)"
  then show a: "\<not> startswith_any (Category r) [''A'', ''C'', ''G'', ''S'']"
    by (simp add: prepare_choropleth_data_def choropleth_tail_Category)
  then show "take 1 (Category r) \<noteq> ''A''" "take 1 (Category r) \<noteq> ''C''"
    "take 1 (Category r) \<noteq> ''G''" "take 1 (Category r) \<noteq> ''S''"
    by (simp_all add: not_startswith_any_ACGS)
next
  fix c assume "c \<in> fst ` set (top_categories (installs_head df_apps))"
  then show "\<not> startswith_any c [''A'', ''C'', ''G'', ''S'']"
    unfolding top_categories_keys by (auto dest: geo_wanted_Category)
next
  fix c assume "c \<in> set (top5 (installs_head df_apps))"
  with top5_keys have "c \<in> fst ` set (top_categories (installs_head df_apps))"
    by blast
  then show "\<not> startswith_any c [''A'', ''C'', ''G'', ''S'']"
    unfolding top_categories_keys by (auto dest: geo_wanted_Category)
qed

theorem C7_excluded_categories_witness:
  "with_Country ''India'' (Some ''IND'')
     (set_Installs (Fin 1000000)
        (raw_row ''Foo'' ''BUSINESS'' ''1,000,000+'' ''600'' ''2018-03-05''))
     \<in> set (prepare_choropleth_data [india] first_choices big_rows) \<and>
   \<not> startswith_any ''BUSINESS'' [''A'', ''C'', ''G'', ''S'']"
proof -
  let ?r = "with_Country ''India'' (Some ''IND'')
     (set_Installs (Fin 1000000)
        (raw_row ''Foo'' ''BUSINESS'' ''1,000,000+'' ''600'' ''2018-03-05''))"
  have h: "?r \<in> set (prepare_choropleth_data [india] first_choices big_rows)"
    by (simp add: choropleth_big_rows installs_head_big_rows)
  with C7_excluded_categories [of "[india]" first_choices big_rows]
  have "\<not> startswith_any (Category ?r) [''A'', ''C'', ''G'', ''S'']"
    by blast
  with h show ?thesis by simp
qed

text \<open>
  C10. The country names are drawn from the table that the lookup reads, so the
  lookup of every name of the table succeeds. With a generator that returns
  \<open>k\<close> members of the population, and the table not empty, no record is dropped
  at line 55: the output has as many records as the frame of the top categories,
  the same records in the same order, and every record has a code of the table.
\<close>

theorem C10_no_country_dropped:
  fixes df_apps :: "raw_record list"
  assumes "choices_contract random_choices" and "pycountry_countries \<noteq> []"
  shows
  "(\<forall>d\<in>set pycountry_countries. \<exists>e\<in>set pycountry_countries.
      get_iso3 pycountry_countries (name d) = Some (alpha_3 e)) \<and>
   length (prepare_choropleth_data pycountry_countries random_choices df_apps) =
     length (geo_top (installs_head df_apps)) \<and>
   map (\<lambda>r. (App r, Category r, Installs r, Reviews r, Last_Updated r))
     (prepare_choropleth_data pycountry_countries random_choices df_apps) =
   map (\<lambda>r. (App r, Category r, Installs r, Reviews r, Last_Updated r))
     (geo_top (installs_head df_apps)) \<and>
   (\<forall>r\<in>set (prepare_choropleth_data pycountry_countries random_choices df_apps).
      Country r \<in> set (map name pycountry_countries) \<and>
      (\<exists>e\<in>set pycountry_countries. iso_alpha r = Some (alpha_3 e)) \<and>
      ((\<forall>e\<in>set pycountry_countries. length (alpha_3 e) = 3) \<longrightarrow>
         (\<exists>code. iso_alpha r = Some code \<and> length code = 3)))"
proof (intro conjI ballI)
  let ?top = "geo_top (installs_head df_apps)"
  let ?chosen = "random_choices (map name pycountry_countries) (length ?top)"
  note nd = choropleth_tail_no_drop [OF assms, of "installs_head df_apps"]
  show "\<exists>e\<in>set pycountry_countries. get_iso3 pycountry_countries (name d) = Some (alpha_3 e)"
    if "d \<in> set pycountry_countries" for d
    using that by (intro get_iso3_name) simp
  show "length (prepare_choropleth_data pycountry_countries random_choices df_apps) =
     length ?top"
    by (simp add: prepare_choropleth_data_def nd)
  show "map (\<lambda>r. (App r, Category r, Installs r, Reviews r, Last_Updated r))
     (prepare_choropleth_data pycountry_countries random_choices df_apps) =
   map (\<lambda>r. (App r, Category r, Installs r, Reviews r, Last_Updated r)) ?top"
    unfolding prepare_choropleth_data_def nd(1)
    by (rule map2_snd_fields [OF nd(2)]) simp
  fix r assume r: "r \<in> set (prepare_choropleth_data pycountry_countries random_choices df_apps)"
  then obtain r' c where c: "c \<in> set ?chosen"
    and eq: "r = with_Country c (get_iso3 pycountry_countries c) r'"
    unfolding prepare_choropleth_data_def by (blast dest: choropleth_tail_rows)
  from c nd(3) have n: "c \<in> set (map name pycountry_countries)"
    by blast
  with eq show "Country r \<in> set (map name pycountry_countries)"
    by simp
  from get_iso3_name [OF n] eq
  show e: "\<exists>e\<in>set pycountry_countries. iso_alpha r = Some (alpha_3 e)"
    by simp
  then show "(\<forall>e\<in>set pycountry_countries. length (alpha_3 e) = 3) \<longrightarrow>
      (\<exists>code. iso_alpha r = Some code \<and> length code = 3)"
    by auto
qed

theorem C10_no_country_dropped_witness:
  "choices_contract first_choices \<and> [india] \<noteq> [] \<and>
   length (prepare_choropleth_data [india] first_choices big_rows) = 2 \<and>
   get_iso3 [india] (name india) = Some ''IND''"
proof -
  have h1: "choices_contract first_choices"
    by (rule choices_contract_first_choices)
  have h2: "[india] \<noteq> []"
    by simp
  have "length (prepare_choropleth_data [india] first_choices big_rows) =
      length (geo_top (installs_head big_rows))"
    using C10_no_country_dropped [OF h1 h2, of big_rows] by blast
  moreover have "length (geo_top (installs_head big_rows)) = 2"
    by (simp only: geo_top_big_rows) (simp add: installs_head_big_rows)
  moreover have "get_iso3 [india] (name india) = Some ''IND''"
    using get_iso3_india by (simp add: india_def)
  ultimately show ?thesis
    using h1 h2 by simp
qed

section \<open>The records of the time series pipeline\<close>

lemma set_Reviews_simps [simp]:
  "App (set_Reviews v r) = App r"
  "Category (set_Reviews v r) = Category r"
  "Installs (set_Reviews v r) = Installs r"
  "Reviews (set_Reviews v r) = v"
  "Last_Updated (set_Reviews v r) = Last_Updated r"
  by (simp_all add: set_Reviews_def)

lemma with_Translated_Category_simps [simp]:
  "App (with_Translated_Category t r) = App r"
  "Category (with_Translated_Category t r) = Category r"
  "Installs (with_Translated_Category t r) = Installs r"
  "Reviews (with_Translated_Category t r) = Reviews r"
  "Last_Updated (with_Translated_Category t r) = Last_Updated r"
  "Translated_Category (with_Translated_Category t r) = t"
  by (simp_all add: with_Translated_Category_def)

lemma set_Last_Updated_simps [simp]:
  "App (set_Last_Updated v r) = App r"
  "Category (set_Last_Updated v r) = Category r"
  "Installs (set_Last_Updated v r) = Installs r"
  "Reviews (set_Last_Updated v r) = Reviews r"
  "Last_Updated (set_Last_Updated v r) = v"
  "Translated_Category (set_Last_Updated v r) = Translated_Category r"
  by (simp_all add: set_Last_Updated_def)

lemma with_Month_simps [simp]:
  "App (with_Month r) = App r"
  "Category (with_Month r) = Category r"
  "Installs (with_Month r) = Installs r"
  "Reviews (with_Month r) = Reviews r"
  "Last_Updated (with_Month r) = Last_Updated r"
  "Translated_Category (with_Month r) = Translated_Category r"
  "Month (with_Month r) = month_start (Last_Updated r)"
  by (simp_all add: with_Month_def)

lemma installs_head_row:
  "r \<in> set (installs_head df_apps) \<Longrightarrow>
   \<exists>r0\<in>set df_apps. install_cleaner (Installs r0) = Some (Installs r) \<and>
      r = set_Installs (Installs r) r0"
proof (induction df_apps)
  case Nil
  then show ?case by simp
next
  case (Cons a df_apps)
  then show ?case
    by (cases "install_cleaner (Installs a)") (auto simp: installs_head_Cons)
qed

lemma set_map_filter: "set (List.map_filter f xs) = {y. \<exists>x\<in>set xs. f x = Some y}"
  by (induction xs) (auto simp: List.map_filter_simps split: option.splits)

lemma notna_Some: "notna cell = Some v \<longleftrightarrow> cell = Some v \<and> v \<noteq> NaN"
  by (auto simp: notna_def split: option.splits)

lemma dropna_Reviews_row:
  "r \<in> set (dropna_Reviews df) \<Longrightarrow>
   \<exists>r0\<in>set df. Reviews r0 = Some (Reviews r) \<and> Reviews r \<noteq> NaN \<and>
      r = set_Reviews (Reviews r) r0"
  by (auto simp: dropna_Reviews_def set_map_filter notna_Some)

lemma dropna_Last_Updated_row:
  "r \<in> set (dropna_Last_Updated df) \<Longrightarrow>
   \<exists>r0\<in>set df. r = set_Last_Updated (Last_Updated r) r0"
  by (auto simp: dropna_Last_Updated_def set_map_filter)

lemma growth_filtered_row:
  assumes "r \<in> set (growth_filtered to_numeric df)"
  shows "fl_gt (Reviews r) (Fin 500)"
    and "startswith_any (Category r) [''E'', ''C'', ''B'']"
    and "\<not> startswith_any (py_lower (App r)) [''x'', ''y'', ''z'']"
    and "\<not> str_contains_S (App r)"
    and "\<exists>r0\<in>set df. App r = App r0 \<and> Category r = Category r0 \<and> Installs r = Installs r0 \<and>
           Last_Updated r = Last_Updated r0 \<and>
           (\<exists>s. Reviews r0 = Some s \<and> to_numeric s = Some (Reviews r))"
proof -
  let ?df1 = "map (\<lambda>r. set_Reviews (Option.bind (Reviews r) to_numeric) r) df"
  from assms have r: "r \<in> set (dropna_Reviews ?df1)"
    and "fl_gt (Reviews r) (Fin 500) \<and> startswith_any (Category r) [''E'', ''C'', ''B''] \<and>
      \<not> startswith_any (py_lower (App r)) [''x'', ''y'', ''z''] \<and> \<not> str_contains_S (App r)"
    by (simp_all add: growth_filtered_def Let_def)
  then show "fl_gt (Reviews r) (Fin 500)"
    and "startswith_any (Category r) [''E'', ''C'', ''B'']"
    and "\<not> startswith_any (py_lower (App r)) [''x'', ''y'', ''z'']"
    and "\<not> str_contains_S (App r)"
    by simp_all
  from dropna_Reviews_row [OF r] obtain r1 where r1: "r1 \<in> set ?df1"
    "Reviews r1 = Some (Reviews r)" "r = set_Reviews (Reviews r) r1"
    by blast
  then obtain r0 where r0: "r0 \<in> set df" "r1 = set_Reviews (Option.bind (Reviews r0) to_numeric) r0"
    by auto
  with r1 have "Option.bind (Reviews r0) to_numeric = Some (Reviews r)"
    by simp
  then have "\<exists>s. Reviews r0 = Some s \<and> to_numeric s = Some (Reviews r)"
    by (cases "Reviews r0") auto
  moreover from r1(3) r0(2) have "App r = App r0 \<and> Category r = Category r0 \<and>
      Installs r = Installs r0 \<and> Last_Updated r = Last_Updated r0"
    by (metis set_Reviews_simps(1,2,3,5))
  ultimately show "\<exists>r0\<in>set df. App r = App r0 \<and> Category r = Category r0 \<and>
      Installs r = Installs r0 \<and> Last_Updated r = Last_Updated r0 \<and>
      (\<exists>s. Reviews r0 = Some s \<and> to_numeric s = Some (Reviews r))"
    using r0(1) by blast
qed

lemma growth_records_row:
  assumes "r \<in> set (growth_records to_numeric to_datetime df)"
  shows "\<exists>r1\<in>set (growth_filtered to_numeric df).
     App r = App r1 \<and> Category r = Category r1 \<and> Installs r = Installs r1 \<and>
     Reviews r = Reviews r1 \<and>
     Translated_Category r =
       (case translations_dict (Category r1) of Some t \<Rightarrow> t | None \<Rightarrow> Category r1) \<and>
     Month r = month_start (Last_Updated r)"
proof -
  let ?df1 = "map (\<lambda>r. with_Translated_Category
      (case translations_dict (Category r) of Some t \<Rightarrow> t | None \<Rightarrow> Category r) r)
      (growth_filtered to_numeric df)"
  let ?df2 = "map2 set_Last_Updated (to_datetime (map Last_Updated ?df1)) ?df1"
  from assms obtain r3 where r3: "r3 \<in> set (dropna_Last_Updated ?df2)" "r = with_Month r3"
    by (auto simp: growth_records_def Let_def)
  from dropna_Last_Updated_row [OF r3(1)] obtain r2 v
    where r2: "r2 \<in> set ?df2" "r3 = set_Last_Updated v r2"
    by blast
  then obtain t r1' where "(t, r1') \<in> set (zip (to_datetime (map Last_Updated ?df1)) ?df1)"
    "r2 = set_Last_Updated t r1'"
    by auto
  then have "r1' \<in> set ?df1" and r2': "r2 = set_Last_Updated t r1'"
    by (auto dest: set_zip_rightD)
  then obtain r1 where r1: "r1 \<in> set (growth_filtered to_numeric df)"
    "r1' = with_Translated_Category
      (case translations_dict (Category r1) of Some t \<Rightarrow> t | None \<Rightarrow> Category r1) r1"
    by auto
  from r3(2) r2(2) r2' r1(2) have "App r = App r1 \<and> Category r = Category r1 \<and>
     Installs r = Installs r1 \<and> Reviews r = Reviews r1 \<and>
     Translated_Category r =
       (case translations_dict (Category r1) of Some t \<Rightarrow> t | None \<Rightarrow> Category r1) \<and>
     Month r = month_start (Last_Updated r)"
    by simp
  with r1(1) show ?thesis by blast
qed

lemma startswith_any_ECB:
  "startswith_any s [''E'', ''C'', ''B''] \<longleftrightarrow>
   take 1 s = ''E'' \<or> take 1 s = ''C'' \<or> take 1 s = ''B''"
  by (simp add: startswith_any_def startswith_def)

lemma take1_py_lower:
  "take 1 s = [c] \<Longrightarrow> take 1 (py_lower s) = [to_lower c]"
  by (cases s) (simp_all add: py_lower_def)

lemma not_startswith_any_xyz:
  assumes "\<not> startswith_any (py_lower s) [''x'', ''y'', ''z'']"
  shows "take 1 s \<noteq> ''x''" "take 1 s \<noteq> ''y''" "take 1 s \<noteq> ''z''"
    "take 1 s \<noteq> ''X''" "take 1 s \<noteq> ''Y''" "take 1 s \<noteq> ''Z''"
proof -
  from assms have n: "take 1 (py_lower s) \<noteq> ''x''" "take 1 (py_lower s) \<noteq> ''y''"
    "take 1 (py_lower s) \<noteq> ''z''"
    by (simp_all add: startswith_any_def startswith_def)
  have l: "to_lower CHR ''x'' = CHR ''x''" "to_lower CHR ''y'' = CHR ''y''"
    "to_lower CHR ''z'' = CHR ''z''" "to_lower CHR ''X'' = CHR ''x''"
    "to_lower CHR ''Y'' = CHR ''y''" "to_lower CHR ''Z'' = CHR ''z''"
    by (simp_all add: to_lower_def)
  show "take 1 s \<noteq> ''x''" using n(1) take1_py_lower [of s "CHR ''x''"] l by auto
  show "take 1 s \<noteq> ''y''" using n(2) take1_py_lower [of s "CHR ''y''"] l by auto
  show "take 1 s \<noteq> ''z''" using n(3) take1_py_lower [of s "CHR ''z''"] l by auto
  show "take 1 s \<noteq> ''X''" using n(1) take1_py_lower [of s "CHR ''X''"] l by auto
  show "take 1 s \<noteq> ''Y''" using n(2) take1_py_lower [of s "CHR ''Y''"] l by auto
  show "take 1 s \<noteq> ''Z''" using n(3) take1_py_lower [of s "CHR ''Z''"] l by auto
qed

lemma not_str_contains_S:
  "\<not> str_contains_S s \<Longrightarrow> CHR ''s'' \<notin> set s \<and> CHR ''S'' \<notin> set s"
  by (auto simp: str_contains_S_def list_ex_iff)

lemma growth_buckets_row:
  assumes "b \<in> set (growth_buckets df)"
  shows "\<exists>r\<in>set df. grouped_Month b = Month r \<and>
     grouped_Translated_Category b = Translated_Category r \<and>
     grouped_Installs b = fl_sum (map Installs
       (filter (\<lambda>x. (Month x, Translated_Category x) = (Month r, Translated_Category r)) df))"
proof -
  from assms obtain kv g
    where "kv \<in> set (groupby_sum (\<lambda>r. (Month r, Translated_Category r)) Installs df)"
      and b: "b = make_bucket kv g"
    by (auto simp: growth_buckets_def Let_def dest: set_zip_leftD)
  then obtain r where "r \<in> set df" "kv = ((Month r, Translated_Category r),
      fl_sum (map Installs
       (filter (\<lambda>x. (Month x, Translated_Category x) = (Month r, Translated_Category r)) df)))"
    unfolding set_groupby_sum by auto
  with b show ?thesis
    by (auto simp: make_bucket_def)
qed

section \<open>Evaluation of the time series pipeline\<close>

lemma install_cleaner_10000: "install_cleaner (Some ''10,000+'') = Some (Fin 10000)"
  by (simp add: cleaner_eval py_float_10000 py_lower_def to_lower_def is_digit_def)

lemma decimal_to_numeric_600: "decimal_to_numeric ''600'' = Some (Fin 600)"
  by (simp add: decimal_to_numeric_def is_digit_def digits_val_def digit_val_def)

lemma iso_date_2018_03_05: "iso_date ''2018-03-05'' = Some (2018, 3, 5)"
  by (simp add: iso_date_def is_digit_def digits_val_def digit_val_def)

lemma iso_to_datetime_foo: "iso_to_datetime [Some ''2018-03-05''] = [Some (2018, 3, 5)]"
  by (simp add: iso_to_datetime_def iso_date_2018_03_05)

lemma installs_head_foo_row: "installs_head [foo_row] = [set_Installs (Fin 10000) foo_row]"
  by (simp add: installs_head_Cons foo_row_def install_cleaner_10000)

lemma translations_dict_BUSINESS: "translations_dict ''BUSINESS'' = None"
  by (simp add: translations_dict_def)

lemma translations_dict_Business: "translations_dict ''Business'' = Some label_Business"
  by (simp add: translations_dict_def)

lemma BUSINESS_not_label: "''BUSINESS'' \<noteq> label_Business"
  by (simp add: label_Business_def)

lemma growth_filtered_foo_row:
  assumes "to_numeric ''600'' = Some (Fin 600)"
  shows "growth_filtered to_numeric (installs_head [foo_row]) =
    [set_Reviews (Fin 600) (set_Installs (Fin 10000) foo_row)]"
  using assms
  by (simp add: growth_filtered_def installs_head_foo_row dropna_Reviews_def
      List.map_filter_simps notna_def)
     (simp add: foo_row_def startswith_any_def startswith_def py_lower_def to_lower_def
      str_contains_S_def)

lemma growth_records_foo_row:
  assumes "to_numeric ''600'' = Some (Fin 600)"
    and "to_datetime [Some ''2018-03-05''] = [Some (2018, 3, 5)]"
  shows "growth_records to_numeric to_datetime (installs_head [foo_row]) =
    [\<lparr>App = ''Foo'', Category = ''BUSINESS'', Installs = Fin 10000, Reviews = Fin 600,
      Last_Updated = (2018, 3, 5), Translated_Category = ''BUSINESS'', Month = (2018, 3, 1)\<rparr>]"
proof -
  have c: "Category (set_Reviews (Fin 600) (set_Installs (Fin 10000) foo_row)) = ''BUSINESS''"
    and u: "Last_Updated (set_Reviews (Fin 600) (set_Installs (Fin 10000) foo_row)) =
      Some ''2018-03-05''"
    by (simp_all add: foo_row_def)
  show ?thesis
    unfolding growth_records_def Let_def growth_filtered_foo_row [of to_numeric, OF assms(1)]
    by (simp add: c u translations_dict_BUSINESS assms(2) dropna_Last_Updated_def
        List.map_filter_simps)
       (simp add: with_Month_def set_Last_Updated_def with_Translated_Category_def
        set_Reviews_def set_Installs_def foo_row_def raw_row_def month_start_def
        translations_dict_BUSINESS assms(2) List.map_filter_simps)
qed

lemma growth_buckets_foo_row:
  "growth_buckets
    [\<lparr>App = ''Foo'', Category = ''BUSINESS'', Installs = Fin 10000, Reviews = Fin 600,
      Last_Updated = (2018, 3, 5), Translated_Category = ''BUSINESS'', Month = (2018, 3, 1)\<rparr>] =
    [\<lparr>grouped_Month = (2018, 3, 1), grouped_Translated_Category = ''BUSINESS'',
      grouped_Installs = Fin 10000, MoM_Growth = NaN, Significant_Growth = False\<rparr>]"
  by (simp add: growth_buckets_def groupby_sum_def fl_sum_def make_bucket_def)

lemma prepare_time_series_data_foo_row:
  assumes "to_numeric ''600'' = Some (Fin 600)"
    and "to_datetime [Some ''2018-03-05''] = [Some (2018, 3, 5)]"
  shows "prepare_time_series_data to_numeric to_datetime [foo_row] =
    [\<lparr>grouped_Month = (2018, 3, 1), grouped_Translated_Category = ''BUSINESS'',
      grouped_Installs = Fin 10000, MoM_Growth = NaN, Significant_Growth = False\<rparr>]"
  by (simp only: prepare_time_series_data_def growth_records_foo_row [of to_numeric to_datetime, OF assms]
      growth_buckets_foo_row)

section \<open>The filters and the end-to-end scenario\<close>

text \<open>
  C6. Every record that is grouped by the time series pipeline comes from a row of
  the data set whose review count \<^verbatim>\<open>to_numeric\<close> reads, as a number greater
  than 500; its category begins with \<^verbatim>\<open>E\<close>, \<^verbatim>\<open>C\<close> or \<^verbatim>\<open>B\<close>; its app
  name begins with none of \<^verbatim>\<open>x\<close>, \<^verbatim>\<open>y\<close>, \<^verbatim>\<open>z\<close> in either case and holds
  no \<^verbatim>\<open>s\<close> in either case. Every bucket of the output is the sum over such
  records.
\<close>

theorem C6_growth_filters:
  fixes df_apps :: "raw_record list"
  shows
  "(\<forall>r\<in>set (growth_records to_numeric to_datetime (installs_head df_apps)).
      (\<exists>raw\<in>set df_apps. App raw = App r \<and> Category raw = Category r \<and>
         install_cleaner (Installs raw) = Some (Installs r) \<and>
         (\<exists>s. Reviews raw = Some s \<and> to_numeric s = Some (Reviews r))) \<and>
      fl_gt (Reviews r) (Fin 500) \<and>
      startswith_any (Category r) [''E'', ''C'', ''B''] \<and>
      (take 1 (Category r) = ''E'' \<or> take 1 (Category r) = ''C'' \<or> take 1 (Category r) = ''B'') \<and>
      \<not> startswith_any (py_lower (App r)) [''x'', ''y'', ''z''] \<and>
      take 1 (App r) \<noteq> ''x'' \<and> take 1 (App r) \<noteq> ''y'' \<and> take 1 (App r) \<noteq> ''z'' \<and>
      take 1 (App r) \<noteq> ''X'' \<and> take 1 (App r) \<noteq> ''Y'' \<and> take 1 (App r) \<noteq> ''Z'' \<and>
      \<not> str_contains_S (App r) \<and> CHR ''s'' \<notin> set (App r) \<and> CHR ''S'' \<notin> set (App r)) \<and>
   (\<forall>b\<in>set (prepare_time_series_data to_numeric to_datetime df_apps).
      \<exists>r\<in>set (growth_records to_numeric to_datetime (installs_head df_apps)).
        grouped_Month b = Month r \<and>
        grouped_Translated_Category b = Translated_Category r \<and>
        grouped_Installs b = fl_sum (map Installs
          (filter (\<lambda>x. (Month x, Translated_Category x) = (Month r, Translated_Category r))
            (growth_records to_numeric to_datetime (installs_head df_apps)))))"
proof (intro conjI ballI)
  fix r assume "r \<in> set (growth_records to_numeric to_datetime (installs_head df_apps))"
  from growth_records_row [OF this] obtain r1
    where r1: "r1 \<in> set (growth_filtered to_numeric (installs_head df_apps))"
      and eq: "App r = App r1" "Category r = Category r1" "Installs r = Installs r1"
        "Reviews r = Reviews r1"
    by blast
  note f = growth_filtered_row [OF r1]
  from f(5) obtain r0 s where r0: "r0 \<in> set (installs_head df_apps)"
    "App r1 = App r0" "Category r1 = Category r0" "Installs r1 = Installs r0"
    "Reviews r0 = Some s" "to_numeric s = Some (Reviews r1)"
    by blast
  from installs_head_row [OF r0(1)] obtain raw where raw: "raw \<in> set df_apps"
    "install_cleaner (Installs raw) = Some (Installs r0)" "r0 = set_Installs (Installs r0) raw"
    by blast
  from raw(3) have "App r0 = App raw" "Category r0 = Category raw" "Reviews r0 = Reviews raw"
    by (metis set_Installs_simps(2), metis set_Installs_simps(3), metis set_Installs_simps(4))
  with raw r0 eq
  show "\<exists>raw\<in>set df_apps. App raw = App r \<and> Category raw = Category r \<and>
         install_cleaner (Installs raw) = Some (Installs r) \<and>
         (\<exists>s. Reviews raw = Some s \<and> to_numeric s = Some (Reviews r))"
    by (intro bexI [of _ raw]) simp_all
  from f eq show "fl_gt (Reviews r) (Fin 500)"
    and ecb: "startswith_any (Category r) [''E'', ''C'', ''B'']"
    and xyz: "\<not> startswith_any (py_lower (App r)) [''x'', ''y'', ''z'']"
    and ns: "\<not> str_contains_S (App r)"
    by simp_all
  from ecb show "take 1 (Category r) = ''E'' \<or> take 1 (Category r) = ''C'' \<or>
      take 1 (Category r) = ''B''"
    by (simp only: startswith_any_ECB)
  from not_startswith_any_xyz [OF xyz]
  show "take 1 (App r) \<noteq> ''x''" "take 1 (App r) \<noteq> ''y''" "take 1 (App r) \<noteq> ''z''"
    "take 1 (App r) \<noteq> ''X''" "take 1 (App r) \<noteq> ''Y''" "take 1 (App r) \<noteq> ''Z''"
    by blast+
  from not_str_contains_S [OF ns]
  show "CHR ''s'' \<notin> set (App r)" "CHR ''S'' \<notin> set (App r)"
    by blast+
next
  fix b assume "b \<in> set (prepare_time_series_data to_numeric to_datetime df_apps)"
  then have "b \<in> set (growth_buckets (growth_records to_numeric to_datetime (installs_head df_apps)))"
    by (simp add: prepare_time_series_data_def)
  then show "\<exists>r\<in>set (growth_records to_numeric to_datetime (installs_head df_apps)).
        grouped_Month b = Month r \<and>
        grouped_Translated_Category b = Translated_Category r \<and>
        grouped_Installs b = fl_sum (map Installs
          (filter (\<lambda>x. (Month x, Translated_Category x) = (Month r, Translated_Category r))
            (growth_records to_numeric to_datetime (installs_head df_apps))))"
    by (rule growth_buckets_row)
qed

theorem C6_growth_filters_witness:
  "\<lparr>App = ''Foo'', Category = ''BUSINESS'', Installs = Fin 10000, Reviews = Fin 600,
     Last_Updated = (2018, 3, 5), Translated_Category = ''BUSINESS'', Month = (2018, 3, 1)\<rparr>
     \<in> set (growth_records decimal_to_numeric iso_to_datetime (installs_head [foo_row])) \<and>
   (\<exists>raw\<in>set [foo_row]. \<exists>s. Reviews raw = Some s \<and> decimal_to_numeric s = Some (Fin 600)) \<and>
   CHR ''s'' \<notin> set ''Foo''"
proof -
  let ?r = "\<lparr>App = ''Foo'', Category = ''BUSINESS'', Installs = Fin 10000, Reviews = Fin 600,
     Last_Updated = (2018, 3, 5), Translated_Category = ''BUSINESS'', Month = (2018, 3, 1)\<rparr>"
  have h: "?r \<in> set (growth_records decimal_to_numeric iso_to_datetime (installs_head [foo_row]))"
    by (simp add: growth_records_foo_row [of decimal_to_numeric iso_to_datetime,
        OF decimal_to_numeric_600 iso_to_datetime_foo])
  note a = C6_growth_filters [of decimal_to_numeric iso_to_datetime "[foo_row]",
      THEN conjunct1, THEN bspec, OF h]
  from a have "\<exists>raw\<in>set [foo_row]. \<exists>s. Reviews raw = Some s \<and>
      decimal_to_numeric s = Some (Fin 600)"
    by simp
  moreover from a have "CHR ''s'' \<notin> set ''Foo''"
    by simp
  ultimately show ?thesis
    using h by blast
qed

lemma growth_records_label:
  fixes df_apps :: "raw_record list"
  assumes "r \<in> set (growth_records to_numeric to_datetime (installs_head df_apps))"
  shows "Translated_Category r =
      (case translations_dict (Category r) of Some t \<Rightarrow> t | None \<Rightarrow> Category r)"
  using growth_records_row [OF assms] by (auto split: option.splits)

lemma not_startswith_Dating:
  "\<not> startswith_any ''Dating'' [''E'', ''C'', ''B'']"
  "\<not> startswith_any ''DATING'' [''E'', ''C'', ''B'']"
  by (simp_all add: startswith_any_def startswith_def)

text \<open>
  C3. The code at the row of the scenario, read with a \<^verbatim>\<open>to_numeric\<close> that
  reads \<^verbatim>\<open>600\<close> and a \<^verbatim>\<open>to_datetime\<close> that reads the date. The row
  passes the three filters, falls into the month 2018-03-01 and is the whole of its
  bucket, whose installs are 10000. Its label is not the one that the dictionary
  holds for \<^verbatim>\<open>Business\<close>: the dictionary is looked up with the category as
  it is spelt, its keys are \<^verbatim>\<open>Beauty\<close>, \<^verbatim>\<open>Business\<close> and
  \<^verbatim>\<open>Dating\<close>, and the category of the row is \<^verbatim>\<open>BUSINESS\<close>, so the
  lookup finds nothing and the label is \<^verbatim>\<open>BUSINESS\<close>. A category
  \<^verbatim>\<open>Dating\<close>, in either spelling, does not pass the filter of line 94.
\<close>

theorem C3_end_to_end_code:
  "growth_records decimal_to_numeric iso_to_datetime (installs_head [foo_row]) =
     [\<lparr>App = ''Foo'', Category = ''BUSINESS'', Installs = Fin 10000, Reviews = Fin 600,
       Last_Updated = (2018, 3, 5), Translated_Category = ''BUSINESS'',
       Month = (2018, 3, 1)\<rparr>] \<and>
   prepare_time_series_data decimal_to_numeric iso_to_datetime [foo_row] =
     [\<lparr>grouped_Month = (2018, 3, 1), grouped_Translated_Category = ''BUSINESS'',
       grouped_Installs = Fin 10000, MoM_Growth = NaN, Significant_Growth = False\<rparr>] \<and>
   translations_dict (Category foo_row) = None \<and>
   translations_dict ''Business'' = Some label_Business \<and>
   ''BUSINESS'' \<noteq> label_Business \<and>
   \<not> startswith_any ''Dating'' [''E'', ''C'', ''B''] \<and>
   \<not> startswith_any ''DATING'' [''E'', ''C'', ''B'']"
proof (intro conjI)
  show "growth_records decimal_to_numeric iso_to_datetime (installs_head [foo_row]) =
     [\<lparr>App = ''Foo'', Category = ''BUSINESS'', Installs = Fin 10000, Reviews = Fin 600,
       Last_Updated = (2018, 3, 5), Translated_Category = ''BUSINESS'',
       Month = (2018, 3, 1)\<rparr>]"
    by (rule growth_records_foo_row [of decimal_to_numeric iso_to_datetime,
        OF decimal_to_numeric_600 iso_to_datetime_foo])
  show "prepare_time_series_data decimal_to_numeric iso_to_datetime [foo_row] =
     [\<lparr>grouped_Month = (2018, 3, 1), grouped_Translated_Category = ''BUSINESS'',
       grouped_Installs = Fin 10000, MoM_Growth = NaN, Significant_Growth = False\<rparr>]"
    by (rule prepare_time_series_data_foo_row [of decimal_to_numeric iso_to_datetime,
        OF decimal_to_numeric_600 iso_to_datetime_foo])
  show "translations_dict (Category foo_row) = None"
    by (simp add: foo_row_def translations_dict_BUSINESS)
  show "translations_dict ''Business'' = Some label_Business"
    by (rule translations_dict_Business)
  show "''BUSINESS'' \<noteq> label_Business"
    by (rule BUSINESS_not_label)
  show "\<not> startswith_any ''Dating'' [''E'', ''C'', ''B'']"
    "\<not> startswith_any ''DATING'' [''E'', ''C'', ''B'']"
    by (rule not_startswith_Dating)+
qed

end
